theory Spec2Isabelle
  imports Main
begin

section \<open>The agent state provider of \<open>use-agent.tsx\<close>\<close>

text \<open>
  The source is one React component, \<open>AgentStateProvider\<close>. Its state cells
  (\<open>useState\<close>, \<open>useRef\<close>) become the fields of the record \<open>state\<close>; its
  asynchronous callbacks \<open>fetchData\<close> and \<open>fetchRemainingDocuments\<close> become
  functions from state to state. Every call that leaves the component (the task
  service, the HTTP client, the IndexedDB cache, the browser's object-URL store, the
  console) is recorded, in program order, in the field \<open>trace\<close>; what such a call
  answers is read from the record \<open>env\<close>, since none of these collaborators is part
  of the source file. A rejected promise or a thrown exception is the \<open>Inl\<close> of a sum.
\<close>

subsection \<open>Payload shapes\<close>

text \<open>
  A URL string is either an object URL (\<open>"blob:..."\<close>, as \<open>URL.createObjectURL\<close>
  returns it; the number identifies the handle) or any other string. The test
  \<open>startsWith("blob:")\<close> of the source is the distinction of the two cases.
\<close>

datatype url = BlobUrl nat | PlainUrl string

datatype blob = Blob nat

datatype json = Json nat

datatype exn = Exn string

text \<open>JavaScript truthiness of a string value: the empty string is falsy.\<close>

fun truthy_url :: "url \<Rightarrow> bool" where
  "truthy_url (BlobUrl n) = True"
| "truthy_url (PlainUrl s) = (s \<noteq> [])"

text \<open>\<open>xs?.[0]\<close> as a condition: the first element exists and is truthy.\<close>

fun first_truthy :: "url list \<Rightarrow> bool" where
  "first_truthy [] = False"
| "first_truthy (u # us) = truthy_url u"

text \<open>\<open>xs[i]\<close>: \<open>undefined\<close> out of range.\<close>

definition nth_opt :: "'a list \<Rightarrow> nat \<Rightarrow> 'a option" where
  "nth_opt xs i = (if i < length xs then Some (xs ! i) else None)"

text \<open>An entry of \<open>allDocuments\<close>: \<open>{ index, imageUrl, jsonData }\<close>.\<close>

record doc_view =
  index :: nat
  imageUrl :: url
  jsonData :: json

text \<open>\<open>currentDocument\<close>: \<open>{ imageUrl, jsonData }\<close>.\<close>

record current_doc =
  cur_imageUrl :: url
  cur_jsonData :: json

text \<open>
  \<open>zoningdocuments\<close>: the two parallel reference arrays of the task payload, and the
  four properties \<open>fetchData\<close> adds. An absent array reads as the empty one (the
  source only ever tests its first element or, after that test, its length).
\<close>

record zoning =
  imageurl :: "url list"
  jsonurl :: "url list"
  currentDocument :: "current_doc option"
  allDocuments :: "doc_view list option"
  totalCount :: "nat option"
  fromCache :: "bool option"

definition empty_zoning :: zoning where
  "empty_zoning = \<lparr>imageurl = [], jsonurl = [], currentDocument = None,
     allDocuments = None, totalCount = None, fromCache = None\<rparr>"

text \<open>One entry of a schema's \<open>group\<close> array, and the schema of one document type.\<close>

record field_group =
  gid :: string
  descriptors :: json

record schema_group =
  groupList :: "string list"
  group :: "field_group list"
  group_prompts :: json

text \<open>\<open>dbdata\<close>: \<open>header\<close> is the list of header rows, each with its \<open>shippingcode\<close>.\<close>

record dbdata =
  header :: "string option list option"
  body :: json

text \<open>
  The task payload \<open>mainData.data\<close> when it is an object. \<open>data_prop\<close> is the
  payload's own \<open>data\<close> property, which the derivation effect compares with \<open>""\<close>.
\<close>

record task_data =
  taskid :: "string option"
  zoningdocuments :: "zoning option"
  data_prop :: "string option"
  schema :: "(string \<times> schema_group) list option"
  task_dbdata :: "dbdata option"
  task_documents :: "json option"
  extractionsource :: "json option"

text \<open>
  \<open>mainData.data\<close>: the empty string (every value loosely equal to \<open>""\<close>), absent
  (\<open>undefined\<close>, also when \<open>mainData\<close> itself is), or a task object.
\<close>

datatype payload = EmptyString | Absent | TaskObj task_data

text \<open>What \<open>getAgentTaskDetails\<close> resolves to: \<open>{ data: mainData, status }\<close>.\<close>

record task_response =
  status :: bool
  main_payload :: payload
  statusCode :: "int option"

text \<open>What \<open>agentKeyedOn\<close> resolves to: \<open>{ status, data, error }\<close>.\<close>

record keyed_response =
  keyed_status :: bool

text \<open>An HTTP response, with what its \<open>blob()\<close> and \<open>json()\<close> resolve to.\<close>

record response =
  blob_body :: "exn + blob"
  json_body :: "exn + json"

subsection \<open>Effects\<close>

datatype req_kind = ImageReq | JsonReq

datatype log_msg =
    TaskChanged string
  | UsingCached nat
  | BackgroundDownloaded nat nat
  | DownloadFailed nat
  | ClearCacheFailed
  | KeyedOnSuccessful
  | KeyedOnFailed
  | ErrorFetchingData
  | ClearOldCacheFailed

datatype log_level = Info | Warn | Error

text \<open>
  The calls the component makes. \<open>HttpGet i k u\<close> is \<open>http.get(u)\<close> for the image or
  the metadata of document \<open>i\<close>; \<open>StartBackground t k\<close> is
  \<open>void fetchRemainingDocuments(t, zoningDocs, k)\<close>; \<open>SetData d\<close> is a call of
  \<open>setData\<close> with the value \<open>d\<close> (for an updater function, the value it returns);
  \<open>UpdaterThrew i\<close> is a call of \<open>setData\<close> whose updater, for document \<open>i\<close>, throws.
\<close>

datatype event =
    CallGetAgentTaskDetails "string option"
  | CallClearTaskCache string
  | CallGetAllDocuments "string option"
  | HttpGet nat req_kind string
  | CallSaveDocument "string option" nat blob json
  | CreateObjectURL nat
  | RevokeObjectURL nat
  | StartBackground "string option" nat
  | CallAgentKeyedOn string "string option"
  | SetData "task_data option"
  | UpdaterThrew nat
  | CallClearOldCache
  | Console log_level log_msg

datatype form_status = VALID | INVALID

text \<open>
  What reading \<open>obj[key]\<close> gives: the value of an own property, something the object
  inherits from \<open>Object.prototype\<close>, or \<open>undefined\<close>.
\<close>

datatype 'a property = Own 'a | Inherited | Missing

type_synonym job = "string option \<times> zoning \<times> nat"

text \<open>
  The component's state. \<open>nextHandle\<close> is the browser's object-URL counter and
  \<open>pending\<close> the background jobs started and not yet run; the other fields are the
  cells of the source, under their names (\<open>values\<close> is \<open>form_values\<close>). A cell
  that holds \<open>null\<close> or \<open>undefined\<close> is \<open>None\<close>, or \<open>Missing\<close> for \<open>formFields\<close>.
\<close>

record state =
  data :: "task_data option"
  formStatus :: form_status
  isLoading :: bool
  readOnly :: bool
  prevTaskIdRef :: "string option"
  formFields :: "field_group list property"
  allFormFields :: "string \<rightharpoonup> field_group list"
  formSchema :: "nat option"
  partialFormSchema :: "nat option"
  allSchemas :: "string \<rightharpoonup> nat"
  partialSchemas :: "string \<rightharpoonup> nat"
  prompts :: "string \<rightharpoonup> json"
  form_values :: "dbdata option"
  documents :: "json option"
  extractionVersion :: "json option"
  nextHandle :: nat
  pending :: "job list"
  trace :: "event list"

text \<open>
  The collaborators, as the answers they give. \<open>roleid\<close> is
  \<open>localStorage.getItem("roleid")\<close>; \<open>createZodSchema sg partial\<close> stands for the
  compiled validator (a number names it).
\<close>

record env =
  roleid :: "string option"
  getAgentTaskDetails :: "string option \<Rightarrow> exn + task_response"
  getAllDocuments :: "string option \<Rightarrow> exn + doc_view list"
  saveDocument :: "string option \<Rightarrow> nat \<Rightarrow> blob \<Rightarrow> json \<Rightarrow> exn + unit"
  clearTaskCache :: "string \<Rightarrow> exn + unit"
  clearOldCache :: "exn + unit"
  http_get :: "string \<Rightarrow> exn + response"
  getGenericURL :: "url option \<Rightarrow> string"
  agentKeyedOn :: "string \<Rightarrow> string option \<Rightarrow> exn + keyed_response"
  createZodSchema :: "schema_group \<Rightarrow> bool \<Rightarrow> nat"

definition emit :: "event \<Rightarrow> state \<Rightarrow> state" where
  "emit e s = s\<lparr>trace := trace s @ [e]\<rparr>"

subsection \<open>Object URLs and the cleanup effect (lines 284-305)\<close>

text \<open>\<open>if (u?.startsWith("blob:")) URL.revokeObjectURL(u)\<close>.\<close>

fun revoke_url :: "url \<Rightarrow> event list" where
  "revoke_url (BlobUrl n) = [RevokeObjectURL n]"
| "revoke_url (PlainUrl s) = []"

text \<open>
  The function the effect on \<open>[data]\<close> returns, for the value of \<open>data\<close> it closed
  over: every \<open>allDocuments\<close> entry in order, then \<open>currentDocument\<close>, then the
  legacy \<open>imageurl[0]\<close>.
\<close>

definition cleanup :: "task_data option \<Rightarrow> event list" where
  "cleanup d =
     (case d of
        None \<Rightarrow> []
      | Some td \<Rightarrow>
          (case zoningdocuments td of
             None \<Rightarrow> []
           | Some z \<Rightarrow>
               concat (map (\<lambda>doc. revoke_url (imageUrl doc))
                         (case allDocuments z of None \<Rightarrow> [] | Some ds \<Rightarrow> ds))
               @ (case currentDocument z of None \<Rightarrow> [] | Some c \<Rightarrow> revoke_url (cur_imageUrl c))
               @ (case imageurl z of [] \<Rightarrow> [] | u # us \<Rightarrow> revoke_url u)))"

text \<open>
  \<open>setData(d)\<close>: React commits the new value and, \<open>data\<close> being a dependency of the
  cleanup effect, runs the cleanup that closed over the previous value. (Every value
  the source passes is a fresh object or \<open>null\<close>, and the cleanup of \<open>null\<close> does
  nothing, so no call is skipped for being the same value.)
\<close>

definition setData :: "task_data option \<Rightarrow> state \<Rightarrow> state" where
  "setData d s = s\<lparr>data := d, trace := trace s @ SetData d # cleanup (data s)\<rparr>"

text \<open>Unmounting the provider runs the cleanup of the current value.\<close>

definition unmount :: "state \<Rightarrow> state" where
  "unmount s = s\<lparr>trace := trace s @ cleanup (data s)\<rparr>"

text \<open>
  Lines 307-312, the effect that runs once on mount: the sweep of old cache entries is
  started and not awaited; its rejection reaches the \<open>.catch\<close>, which warns. It runs
  whatever the role and the read-only flag are.
\<close>

definition sweep_on_mount :: "env \<Rightarrow> state \<Rightarrow> state" where
  "sweep_on_mount env s =
     (let s1 = emit CallClearOldCache s
      in case clearOldCache env of
           Inl e \<Rightarrow> emit (Console Warn ClearOldCacheFailed) s1
         | Inr ok \<Rightarrow> s1)"

text \<open>\<open>URL.createObjectURL(blob)\<close>: a fresh handle.\<close>

definition createObjectURL :: "state \<Rightarrow> url \<times> state" where
  "createObjectURL s =
     (BlobUrl (nextHandle s),
      s\<lparr>nextHandle := Suc (nextHandle s), trace := trace s @ [CreateObjectURL (nextHandle s)]\<rparr>)"

subsection \<open>\<open>fetchRemainingDocuments\<close> (lines 111-150)\<close>

text \<open>The \<open>catch\<close> of the loop body: \<open>console.error\<close>, nothing else.\<close>

definition download_failed :: "nat \<Rightarrow> state \<Rightarrow> state" where
  "download_failed i s = emit (Console Error (DownloadFailed i)) s"

text \<open>
  The updater passed to \<open>setData\<close> (lines 128-141), applied to the value \<open>prev\<close>
  with the object URL \<open>u\<close> it created.
\<close>

definition append_document :: "task_data \<Rightarrow> nat \<Rightarrow> url \<Rightarrow> json \<Rightarrow> task_data" where
  "append_document prev i u j =
     prev\<lparr>zoningdocuments :=
       Some ((case zoningdocuments prev of None \<Rightarrow> empty_zoning | Some z \<Rightarrow> z)
         \<lparr>allDocuments :=
            Some ((case zoningdocuments prev of
                     None \<Rightarrow> []
                   | Some z \<Rightarrow> (case allDocuments z of None \<Rightarrow> [] | Some ds \<Rightarrow> ds))
                  @ [\<lparr>index = i, imageUrl = u, jsonData = j\<rparr>])\<rparr>)\<rparr>"

text \<open>
  Lines 117-123: both requests are issued before either is awaited (\<open>Promise.all\<close>);
  then \<open>blob()\<close> of the image response and \<open>json()\<close> of the metadata response. The
  first rejection is what the \<open>await\<close> throws.
\<close>

definition fetch_pair :: "env \<Rightarrow> string \<Rightarrow> string \<Rightarrow> exn + blob \<times> json" where
  "fetch_pair env image_ref json_ref =
     (case http_get env image_ref of
        Inl e \<Rightarrow> Inl e
      | Inr imageResponse \<Rightarrow>
          (case http_get env json_ref of
             Inl e \<Rightarrow> Inl e
           | Inr jsonResponse \<Rightarrow>
               (case blob_body imageResponse of
                  Inl e \<Rightarrow> Inl e
                | Inr imageBlob \<Rightarrow>
                    (case json_body jsonResponse of
                       Inl e \<Rightarrow> Inl e
                     | Inr jsonData' \<Rightarrow> Inr (imageBlob, jsonData')))))"

definition image_ref :: "env \<Rightarrow> zoning \<Rightarrow> nat \<Rightarrow> string" where
  "image_ref env zoningDocs i = getGenericURL env (nth_opt (imageurl zoningDocs) i)"

definition json_ref :: "env \<Rightarrow> zoning \<Rightarrow> nat \<Rightarrow> string" where
  "json_ref env zoningDocs i = getGenericURL env (nth_opt (jsonurl zoningDocs) i)"

text \<open>
  One iteration of the \<open>for\<close> loop, for index \<open>i\<close>. With \<open>prev\<close> being \<open>null\<close> the
  updater's \<open>prev.zoningdocuments\<close> throws before it creates the object URL. React
  runs the updater itself and reports what it throws when it renders, not to the
  caller of \<open>setData\<close>: the \<open>catch\<close> of the body does not see it, the next line logs,
  and the loop goes on. (The session after such a render error is not followed.)
\<close>

definition fetch_one :: "env \<Rightarrow> string option \<Rightarrow> zoning \<Rightarrow> nat \<Rightarrow> state \<Rightarrow> state" where
  "fetch_one env taskId zoningDocs i s =
     (let total = length (imageurl zoningDocs);
          s1 = emit (HttpGet i JsonReq (json_ref env zoningDocs i))
                 (emit (HttpGet i ImageReq (image_ref env zoningDocs i)) s)
      in case fetch_pair env (image_ref env zoningDocs i) (json_ref env zoningDocs i) of
           Inl e \<Rightarrow> download_failed i s1
         | Inr (imageBlob, jsonData') \<Rightarrow>
             (let s2 = emit (CallSaveDocument taskId i imageBlob jsonData') s1
              in case saveDocument env taskId i imageBlob jsonData' of
                   Inl e \<Rightarrow> download_failed i s2
                 | Inr ok \<Rightarrow>
                     (case data s2 of
                        None \<Rightarrow>
                          emit (Console Info (BackgroundDownloaded (i + 1) total))
                            (emit (UpdaterThrew i) s2)
                      | Some prev \<Rightarrow>
                          (let (u, s3) = createObjectURL s2;
                               s4 = setData (Some (append_document prev i u jsonData')) s3
                           in emit (Console Info (BackgroundDownloaded (i + 1) total)) s4))))"

text \<open>The loop \<open>for (let i = startIndex; i < total; i++)\<close>.\<close>

function fetchRemainingDocuments ::
  "env \<Rightarrow> string option \<Rightarrow> zoning \<Rightarrow> nat \<Rightarrow> state \<Rightarrow> state" where
  "fetchRemainingDocuments env taskId zoningDocs i s =
     (if i < length (imageurl zoningDocs)
      then fetchRemainingDocuments env taskId zoningDocs (Suc i)
             (fetch_one env taskId zoningDocs i s)
      else s)"
  by pat_completeness auto
termination
  by (relation "measure (\<lambda>(env, taskId, zoningDocs, i, s). length (imageurl zoningDocs) - i)") auto

declare fetchRemainingDocuments.simps [simp del]

text \<open>
  \<open>void fetchRemainingDocuments(taskId, zoningDocs, k)\<close>: the job is started and not
  awaited. In the source its first two requests are issued within this call and the
  rest of the job runs between the other callbacks; the iterations of a job read
  and write the shared state only through \<open>setData\<close>. The model records the start
  and keeps the job in \<open>pending\<close>; \<open>run_jobs\<close> runs pending jobs to completion, one
  after the other, which is one of the schedules the source allows.
\<close>

definition start_background :: "string option \<Rightarrow> zoning \<Rightarrow> nat \<Rightarrow> state \<Rightarrow> state" where
  "start_background taskId zoningDocs k s =
     (emit (StartBackground taskId k) s)\<lparr>pending := pending s @ [(taskId, zoningDocs, k)]\<rparr>"

fun run_jobs :: "env \<Rightarrow> job list \<Rightarrow> state \<Rightarrow> state" where
  "run_jobs env [] s = s"
| "run_jobs env ((taskId, zoningDocs, k) # js) s =
     run_jobs env js (fetchRemainingDocuments env taskId zoningDocs k s)"

subsection \<open>\<open>fetchData\<close> (lines 152-281)\<close>

text \<open>The guard of line 154.\<close>

definition gate :: "env \<Rightarrow> state \<Rightarrow> bool" where
  "gate env s = (\<not> readOnly s \<and> (roleid env = Some ''1'' \<or> roleid env = Some ''15''))"

text \<open>\<open>mainData?.data?.taskid\<close>.\<close>

fun payload_taskid :: "payload \<Rightarrow> string option" where
  "payload_taskid (TaskObj td) = taskid td"
| "payload_taskid p = None"

text \<open>
  Lines 165-174: the previous task's cache is cleared when the task id changed. A
  task id is a string or \<open>undefined\<close>; \<open>undefined\<close> and \<open>""\<close> are falsy. The promise
  of \<open>clearTaskCache\<close> is not awaited; its rejection reaches the \<open>.catch\<close>, which
  warns.
\<close>

definition task_switch :: "env \<Rightarrow> string option \<Rightarrow> state \<Rightarrow> state" where
  "task_switch env taskId s =
     (let s1 =
        (case prevTaskIdRef s of
           None \<Rightarrow> s
         | Some prev \<Rightarrow>
             if prev \<noteq> [] \<and> Some prev \<noteq> taskId
             then (let s' = emit (CallClearTaskCache prev) (emit (Console Info (TaskChanged prev)) s)
                   in case clearTaskCache env prev of
                        Inl e \<Rightarrow> emit (Console Warn ClearCacheFailed) s'
                      | Inr ok \<Rightarrow> s')
             else s)
      in s1\<lparr>prevTaskIdRef := taskId\<rparr>)"

text \<open>
  Lines 242-251, the \<open>catch\<close> of the hydration: the payload is published without its
  \<open>zoningdocuments\<close>.
\<close>

definition drop_documents :: "task_data \<Rightarrow> state \<Rightarrow> state" where
  "drop_documents td s = (setData (Some (td\<lparr>zoningdocuments := None\<rparr>)) s)\<lparr>formStatus := VALID\<rparr>"

text \<open>Lines 188-200: \<open>enrichedData\<close> of the cache hit.\<close>

definition enriched_hit :: "task_data \<Rightarrow> zoning \<Rightarrow> doc_view list \<Rightarrow> task_data" where
  "enriched_hit td zoningDocs cachedDocs =
     td\<lparr>zoningdocuments := Some (zoningDocs
       \<lparr>currentDocument :=
          Some \<lparr>cur_imageUrl = imageUrl (hd cachedDocs), cur_jsonData = jsonData (hd cachedDocs)\<rparr>,
        allDocuments := Some cachedDocs,
        totalCount := Some (length (imageurl zoningDocs)),
        fromCache := Some True\<rparr>)\<rparr>"

text \<open>Lines 182-208, the cache hit.\<close>

definition cache_hit :: "task_data \<Rightarrow> zoning \<Rightarrow> doc_view list \<Rightarrow> state \<Rightarrow> state" where
  "cache_hit td zoningDocs cachedDocs s =
     (let totalCount' = length (imageurl zoningDocs);
          s1 = emit (Console Info (UsingCached (length cachedDocs))) s;
          s2 = (setData (Some (enriched_hit td zoningDocs cachedDocs)) s1)\<lparr>formStatus := VALID\<rparr>
      in if length cachedDocs < totalCount'
         then start_background (taskid td) zoningDocs (length cachedDocs) s2
         else s2)"

text \<open>Lines 223-232: \<open>enrichedData\<close> of the cache miss.\<close>

definition enriched_miss :: "task_data \<Rightarrow> zoning \<Rightarrow> url \<Rightarrow> json \<Rightarrow> task_data" where
  "enriched_miss td zoningDocs imageUrl' jsonData' =
     td\<lparr>zoningdocuments := Some (zoningDocs
       \<lparr>currentDocument := Some \<lparr>cur_imageUrl = imageUrl', cur_jsonData = jsonData'\<rparr>,
        allDocuments := Some [\<lparr>index = 0, imageUrl = imageUrl', jsonData = jsonData'\<rparr>],
        totalCount := Some (length (imageurl zoningDocs)),
        fromCache := Some False\<rparr>)\<rparr>"

text \<open>
  Lines 209-241, the cache miss. The object URL is created between \<open>blob()\<close> and
  \<open>json()\<close>, before the document is saved.
\<close>

definition cache_miss :: "env \<Rightarrow> task_data \<Rightarrow> zoning \<Rightarrow> state \<Rightarrow> state" where
  "cache_miss env td zoningDocs s =
     (let totalCount' = length (imageurl zoningDocs);
          s1 = emit (HttpGet 0 JsonReq (json_ref env zoningDocs 0))
                 (emit (HttpGet 0 ImageReq (image_ref env zoningDocs 0)) s)
      in case http_get env (image_ref env zoningDocs 0) of
           Inl e \<Rightarrow> drop_documents td s1
         | Inr imageResponse \<Rightarrow>
        (case http_get env (json_ref env zoningDocs 0) of
           Inl e \<Rightarrow> drop_documents td s1
         | Inr jsonResponse \<Rightarrow>
        (case blob_body imageResponse of
           Inl e \<Rightarrow> drop_documents td s1
         | Inr imageBlob \<Rightarrow>
        (let (imageUrl', s2) = createObjectURL s1
         in case json_body jsonResponse of
              Inl e \<Rightarrow> drop_documents td s2
            | Inr jsonData' \<Rightarrow>
           (let s3 = emit (CallSaveDocument (taskid td) 0 imageBlob jsonData') s2
            in case saveDocument env (taskid td) 0 imageBlob jsonData' of
                 Inl e \<Rightarrow> drop_documents td s3
               | Inr ok \<Rightarrow>
                   (let s4 = (setData (Some (enriched_miss td zoningDocs imageUrl' jsonData')) s3)
                               \<lparr>formStatus := VALID\<rparr>
                    in if totalCount' > 1
                       then start_background (taskid td) zoningDocs 1 s4
                       else s4))))))"

text \<open>
  Lines 176-255: the hydration of the documents of the payload. An absent payload
  has no \<open>zoningdocuments\<close>, and \<open>setData\<close> receives \<open>undefined\<close>. (\<open>fetchData\<close> does
  not enter this block with the empty string.)
\<close>

definition hydrate :: "env \<Rightarrow> payload \<Rightarrow> state \<Rightarrow> state" where
  "hydrate env p s =
     (case p of
        TaskObj td \<Rightarrow>
          (case zoningdocuments td of
             None \<Rightarrow> setData (Some td) (s\<lparr>formStatus := VALID\<rparr>)
           | Some zoningDocs \<Rightarrow>
               if first_truthy (imageurl zoningDocs) \<and> first_truthy (jsonurl zoningDocs)
               then (let s1 = emit (CallGetAllDocuments (taskid td)) s
                     in case getAllDocuments env (taskid td) of
                          Inl e \<Rightarrow> drop_documents td s1
                        | Inr cachedDocs \<Rightarrow>
                            if length cachedDocs > 0
                            then cache_hit td zoningDocs cachedDocs s1
                            else cache_miss env td zoningDocs s1)
               else setData (Some td) (s\<lparr>formStatus := VALID\<rparr>))
      | EmptyString \<Rightarrow> setData None (s\<lparr>formStatus := VALID\<rparr>)
      | Absent \<Rightarrow> setData None (s\<lparr>formStatus := VALID\<rparr>))"

text \<open>Lines 274-276, the outer \<open>catch\<close>.\<close>

definition outer_catch :: "state \<Rightarrow> state" where
  "outer_catch s = setData None (emit (Console Error ErrorFetchingData) s)"

text \<open>
  Lines 257-268: \<open>agentKeyedOn\<close> is awaited inside the outer \<open>try\<close>, so its rejection
  reaches the outer \<open>catch\<close>.
\<close>

definition keyed_on :: "env \<Rightarrow> string option \<Rightarrow> state \<Rightarrow> state" where
  "keyed_on env taskId s =
     (case taskId of
        None \<Rightarrow> s
      | Some t \<Rightarrow>
          if t \<noteq> []
          then (let s1 = emit (CallAgentKeyedOn t (roleid env)) s
                in case agentKeyedOn env t (roleid env) of
                     Inl e \<Rightarrow> outer_catch s1
                   | Inr agentKeyedResponse \<Rightarrow>
                       if keyed_status agentKeyedResponse
                       then emit (Console Info KeyedOnSuccessful) s1
                       else emit (Console Error KeyedOnFailed) s1)
          else s)"

definition fetchData :: "env \<Rightarrow> state \<Rightarrow> state" where
  "fetchData env s0 =
     (let s1 = s0\<lparr>isLoading := True\<rparr>
      in if gate env s1
         then (let s2 = emit (CallGetAgentTaskDetails (roleid env)) s1;
                   s3 =
                     (case getAgentTaskDetails env (roleid env) of
                        Inl e \<Rightarrow> outer_catch s2
                      | Inr r \<Rightarrow>
                          if status r \<and> main_payload r \<noteq> EmptyString
                          then (let taskId = payload_taskid (main_payload r)
                                in keyed_on env taskId
                                     (hydrate env (main_payload r) (task_switch env taskId s2)))
                          else if status r \<and> statusCode r = Some 501
                          then s2\<lparr>formStatus := INVALID\<rparr>
                          else setData None s2)
               in s3\<lparr>isLoading := False\<rparr>)
         else s1)"

text \<open>
  The three callers of \<open>fetchData\<close>: the mount effect (lines 314-319), the interval
  of the retry effect (lines 321-328) and \<open>refreshData\<close> (lines 409-411).
\<close>

definition initializeData :: "env \<Rightarrow> state \<Rightarrow> state" where
  "initializeData env s = fetchData env s"

definition retry_tick :: "env \<Rightarrow> state \<Rightarrow> state" where
  "retry_tick env s = fetchData env s"

definition refreshData :: "env \<Rightarrow> state \<Rightarrow> state" where
  "refreshData env s = fetchData env s"

text \<open>The retry effect keeps an interval exactly while \<open>!data && !readOnly\<close>.\<close>

definition retry_timer_armed :: "state \<Rightarrow> bool" where
  "retry_timer_armed s = (data s = None \<and> \<not> readOnly s)"

text \<open>
  One run of the pipeline to its end: \<open>fetchData\<close>, then every background job it
  left pending.
\<close>

definition settle :: "env \<Rightarrow> state \<Rightarrow> state" where
  "settle env s = (let s1 = fetchData env s in run_jobs env (pending s1) (s1\<lparr>pending := []\<rparr>))"

text \<open>The state after the component's first render.\<close>

definition initial_state :: "bool \<Rightarrow> state" where
  "initial_state isReadOnly =
     \<lparr>data = None, formStatus = VALID, isLoading = True, readOnly = isReadOnly,
      prevTaskIdRef = None, formFields = Missing, allFormFields = Map.empty,
      formSchema = None, partialFormSchema = None, allSchemas = Map.empty,
      partialSchemas = Map.empty, prompts = Map.empty, form_values = None,
      documents = None, extractionVersion = None, nextHandle = 0, pending = [],
      trace = []\<rparr>"

subsection \<open>The derivation effect (lines 330-407)\<close>









text \<open>
  \<open>allSchema.type[docType].schema\<close>: the validator of an own entry, \<open>undefined\<close> on
  something inherited (which has no \<open>schema\<close>), and a \<open>TypeError\<close> when
  \<open>allSchema.type[docType]\<close> is \<open>undefined\<close>.
\<close>

definition schema_of :: "nat property \<Rightarrow> exn + nat option" where
  "schema_of p =
     (case p of
        Own v \<Rightarrow> Inr (Some v)
      | Inherited \<Rightarrow> Inr None
      | Missing \<Rightarrow> Inl (Exn ''TypeError''))"


subsection \<open>Reading a trace\<close>

text \<open>The document indices of the HTTP requests of a trace, in order.\<close>

fun http_indices :: "event list \<Rightarrow> nat list" where
  "http_indices [] = []"
| "http_indices (HttpGet i k u # es) = i # http_indices es"
| "http_indices (e # es) = http_indices es"

text \<open>The values passed to \<open>setData\<close>, in order.\<close>

fun published :: "event list \<Rightarrow> task_data option list" where
  "published [] = []"
| "published (SetData d # es) = d # published es"
| "published (e # es) = published es"

text \<open>The task ids \<open>clearTaskCache\<close> was called with.\<close>

fun clear_calls :: "event list \<Rightarrow> string list" where
  "clear_calls [] = []"
| "clear_calls (CallClearTaskCache t # es) = t # clear_calls es"
| "clear_calls (e # es) = clear_calls es"

text \<open>The documents \<open>saveDocument\<close> was called with.\<close>

fun saved_docs :: "event list \<Rightarrow> (string option \<times> nat \<times> blob \<times> json) list" where
  "saved_docs [] = []"
| "saved_docs (CallSaveDocument t i b j # es) = (t, i, b, j) # saved_docs es"
| "saved_docs (e # es) = saved_docs es"

text \<open>The handles created and the handles revoked.\<close>

fun created :: "event list \<Rightarrow> nat list" where
  "created [] = []"
| "created (CreateObjectURL n # es) = n # created es"
| "created (e # es) = created es"

fun revoked :: "event list \<Rightarrow> nat list" where
  "revoked [] = []"
| "revoked (RevokeObjectURL n # es) = n # revoked es"
| "revoked (e # es) = revoked es"

text \<open>The background jobs started: task id and start index.\<close>

fun started :: "event list \<Rightarrow> (string option \<times> nat) list" where
  "started [] = []"
| "started (StartBackground t k # es) = (t, k) # started es"
| "started (e # es) = started es"

text \<open>The task ids \<open>agentKeyedOn\<close> was called with.\<close>

fun keyed_calls :: "event list \<Rightarrow> string list" where
  "keyed_calls [] = []"
| "keyed_calls (CallAgentKeyedOn t r # es) = t # keyed_calls es"
| "keyed_calls (e # es) = keyed_calls es"



text \<open>The indices of the entries of \<open>allDocuments\<close> of the exposed data.\<close>

definition document_indices :: "state \<Rightarrow> nat list" where
  "document_indices s =
     (case data s of
        None \<Rightarrow> []
      | Some d \<Rightarrow>
          (case zoningdocuments d of
             None \<Rightarrow> []
           | Some z \<Rightarrow> (case allDocuments z of None \<Rightarrow> [] | Some ds \<Rightarrow> map index ds)))"

subsection \<open>A concrete task and concrete collaborators\<close>

definition example_zoning :: zoning where
  "example_zoning =
     \<lparr>imageurl = [PlainUrl ''img0'', PlainUrl ''img1'', PlainUrl ''img2''],
      jsonurl = [PlainUrl ''meta0'', PlainUrl ''meta1'', PlainUrl ''meta2''],
      currentDocument = None, allDocuments = None, totalCount = None, fromCache = None\<rparr>"

definition example_task :: task_data where
  "example_task =
     \<lparr>taskid = Some ''T1'', zoningdocuments = Some example_zoning, data_prop = None,
      schema = None, task_dbdata = None, task_documents = None, extractionsource = None\<rparr>"

text \<open>
  Every collaborator succeeds: the task service answers with \<open>example_task\<close>, the
  cache is empty, and the response to a request for \<open>u\<close> carries a blob and a JSON
  value numbered by the length of \<open>u\<close>.
\<close>

definition example_env :: env where
  "example_env =
     \<lparr>roleid = Some ''1'',
      getAgentTaskDetails =
        (\<lambda>r. Inr \<lparr>status = True, main_payload = TaskObj example_task, statusCode = None\<rparr>),
      getAllDocuments = (\<lambda>t. Inr []),
      saveDocument = (\<lambda>t i b j. Inr ()),
      clearTaskCache = (\<lambda>t. Inr ()),
      clearOldCache = Inr (),
      http_get = (\<lambda>u. Inr \<lparr>blob_body = Inr (Blob (length u)), json_body = Inr (Json (length u))\<rparr>),
      getGenericURL = (\<lambda>u. case u of Some (PlainUrl x) \<Rightarrow> x | Some (BlobUrl n) \<Rightarrow> [] | None \<Rightarrow> []),
      agentKeyedOn = (\<lambda>t r. Inr \<lparr>keyed_status = True\<rparr>),
      createZodSchema = (\<lambda>sg partial. if partial then 1 else 0)\<rparr>"

definition cached_doc :: "nat \<Rightarrow> doc_view" where
  "cached_doc i = \<lparr>index = i, imageUrl = BlobUrl (100 + i), jsonData = Json i\<rparr>"

text \<open>
  The same collaborators, except that the request for the image of document 1 is
  rejected and that the cache refuses to store a document under index 3.
\<close>

definition offline_env :: env where
  "offline_env =
     example_env\<lparr>http_get := (\<lambda>u. if u = ''img1'' then Inl (Exn ''offline'') else http_get example_env u),
       saveDocument := (\<lambda>t i b j. if i = 3 then Inl (Exn ''quota'') else Inr ())\<rparr>"

text \<open>A list of events that holds nothing but revocations.\<close>

definition only_revokes :: "event list \<Rightarrow> bool" where
  "only_revokes es = (es = map RevokeObjectURL (revoked es))"

text \<open>The cache already holds documents 0 and 1 of the task.\<close>

definition cached_env :: env where
  "cached_env = example_env\<lparr>getAllDocuments := (\<lambda>t. Inr [cached_doc 0, cached_doc 1])\<rparr>"

text \<open>
  The task service answers that no task is provisioned yet: an empty payload with
  status code 501.
\<close>

definition unprovisioned_env :: env where
  "unprovisioned_env =
     example_env\<lparr>getAgentTaskDetails :=
       (\<lambda>r. Inr \<lparr>status = True, main_payload = EmptyString, statusCode = Some 501\<rparr>)\<rparr>"

text \<open>The task service answers with a task and, beside it, status code 501.\<close>

definition task_with_501_env :: env where
  "task_with_501_env =
     example_env\<lparr>getAgentTaskDetails :=
       (\<lambda>r. Inr \<lparr>status = True, main_payload = TaskObj example_task, statusCode = Some 501\<rparr>)\<rparr>"





text \<open>
  The task service answers with the next task, \<open>T2\<close>, and clearing the cache of a
  task is rejected.
\<close>

definition next_task_env :: env where
  "next_task_env =
     example_env\<lparr>getAgentTaskDetails :=
         (\<lambda>r. Inr \<lparr>status = True, main_payload = TaskObj (example_task\<lparr>taskid := Some ''T2''\<rparr>),
                    statusCode = None\<rparr>),
       clearTaskCache := (\<lambda>t. Inl (Exn ''blocked''))\<rparr>"

text \<open>A state without the warnings of rejected \<open>clearTaskCache\<close> calls in its trace.\<close>

definition erase_warn :: "state \<Rightarrow> state" where
  "erase_warn s = s\<lparr>trace := filter (\<lambda>e. e \<noteq> Console Warn ClearCacheFailed) (trace s)\<rparr>"

text \<open>The task ids lines 165-173 clear, for a previous and a new task id.\<close>

definition switch_clears :: "string option \<Rightarrow> string option \<Rightarrow> string list" where
  "switch_clears prev t =
     (case prev of None \<Rightarrow> [] | Some a \<Rightarrow> if a \<noteq> [] \<and> Some a \<noteq> t then [a] else [])"

text \<open>
  The cache holds documents 0 and 2 of the task, and not document 1: what a run
  leaves behind in which document 1 failed to download.
\<close>

definition gap_env :: env where
  "gap_env = example_env\<lparr>getAllDocuments := (\<lambda>t. Inr [cached_doc 0, cached_doc 2])\<rparr>"

text \<open>\<open>agentKeyedOn\<close> rejects (the request itself fails).\<close>

definition keyed_reject_env :: env where
  "keyed_reject_env = example_env\<lparr>agentKeyedOn := (\<lambda>t r. Inl (Exn ''timeout''))\<rparr>"

text \<open>\<open>agentKeyedOn\<close> resolves to a response that reports a failure.\<close>

definition keyed_refused_env :: env where
  "keyed_refused_env = example_env\<lparr>agentKeyedOn := (\<lambda>t r. Inr \<lparr>keyed_status = False\<rparr>)\<rparr>"

text \<open>Every metadata response has a body that \<open>json()\<close> cannot parse.\<close>

definition broken_json_env :: env where
  "broken_json_env =
     example_env\<lparr>http_get :=
       (\<lambda>u. Inr \<lparr>blob_body = Inr (Blob (length u)), json_body = Inl (Exn ''SyntaxError'')\<rparr>)\<rparr>"

text \<open>A task with a single document.\<close>

definition single_zoning :: zoning where
  "single_zoning = example_zoning\<lparr>imageurl := [PlainUrl ''img0''], jsonurl := [PlainUrl ''meta0'']\<rparr>"

definition single_doc_env :: env where
  "single_doc_env =
     example_env\<lparr>getAgentTaskDetails :=
       (\<lambda>r. Inr \<lparr>status = True,
                  main_payload = TaskObj (example_task\<lparr>zoningdocuments := Some single_zoning\<rparr>),
                  statusCode = None\<rparr>)\<rparr>"





text \<open>
  The calls of \<open>clearTaskCache\<close> and the warnings of its \<open>.catch\<close> (lines 170-172), in
  the order of the trace.
\<close>

fun is_clearing :: "event \<Rightarrow> bool" where
  "is_clearing (CallClearTaskCache t) = True"
| "is_clearing (Console level msg) = (level = Warn \<and> msg = ClearCacheFailed)"
| "is_clearing e = False"

definition cache_clearing :: "event list \<Rightarrow> event list" where
  "cache_clearing es = filter is_clearing es"

text \<open>What lines 165-173 add to \<open>cache_clearing\<close>, for a previous and a new task id.\<close>

definition switch_events :: "env \<Rightarrow> string option \<Rightarrow> string option \<Rightarrow> event list" where
  "switch_events env prev t =
     (case prev of
        None \<Rightarrow> []
      | Some a \<Rightarrow>
          if a \<noteq> [] \<and> Some a \<noteq> t
          then CallClearTaskCache a
               # (case clearTaskCache env a of
                    Inl e \<Rightarrow> [Console Warn ClearCacheFailed]
                  | Inr ok \<Rightarrow> [])
          else [])"

text \<open>The task service answers with a task whose id is the empty string.\<close>

definition blank_id_env :: env where
  "blank_id_env =
     example_env\<lparr>getAgentTaskDetails :=
         (\<lambda>r. Inr \<lparr>status = True, main_payload = TaskObj (example_task\<lparr>taskid := Some ''''\<rparr>),
                    statusCode = None\<rparr>)\<rparr>"




text \<open>The cache refuses to store any document.\<close>

definition save_refused_env :: env where
  "save_refused_env = example_env\<lparr>saveDocument := (\<lambda>t i b j. Inl (Exn ''quota''))\<rparr>"

text \<open>The HTTP requests of a trace with their addresses, in order.\<close>

fun http_requests :: "event list \<Rightarrow> (req_kind \<times> string) list" where
  "http_requests [] = []"
| "http_requests (HttpGet i k u # es) = (k, u) # http_requests es"
| "http_requests (e # es) = http_requests es"

section \<open>Properties\<close>

text \<open>The definitions that a run of the pipeline on a concrete task unfolds.\<close>

lemmas run_defs = settle_def fetchData_def gate_def emit_def setData_def cleanup_def
  createObjectURL_def download_failed_def append_document_def fetch_pair_def image_ref_def
  json_ref_def fetch_one_def start_background_def task_switch_def drop_documents_def
  cache_hit_def cache_miss_def hydrate_def outer_catch_def keyed_on_def initial_state_def
  example_env_def example_task_def example_zoning_def cached_doc_def nth_opt_def
  document_indices_def unmount_def empty_zoning_def enriched_hit_def enriched_miss_def
  fetchRemainingDocuments.simps Let_def retry_timer_armed_def

subsection \<open>Traces\<close>

lemma http_indices_append [simp]: "http_indices (xs @ ys) = http_indices xs @ http_indices ys"
  by (induction xs rule: http_indices.induct) simp_all

lemma published_append [simp]: "published (xs @ ys) = published xs @ published ys"
  by (induction xs rule: published.induct) simp_all

lemma clear_calls_append [simp]: "clear_calls (xs @ ys) = clear_calls xs @ clear_calls ys"
  by (induction xs rule: clear_calls.induct) simp_all

lemma saved_docs_append [simp]: "saved_docs (xs @ ys) = saved_docs xs @ saved_docs ys"
  by (induction xs rule: saved_docs.induct) simp_all

lemma created_append [simp]: "created (xs @ ys) = created xs @ created ys"
  by (induction xs rule: created.induct) simp_all

lemma revoked_append [simp]: "revoked (xs @ ys) = revoked xs @ revoked ys"
  by (induction xs rule: revoked.induct) simp_all

lemma keyed_calls_append [simp]: "keyed_calls (xs @ ys) = keyed_calls xs @ keyed_calls ys"
  by (induction xs rule: keyed_calls.induct) simp_all

lemma started_append [simp]: "started (xs @ ys) = started xs @ started ys"
  by (induction xs rule: started.induct) simp_all

lemma only_revokes_Nil [simp]: "only_revokes []"
  by (simp add: only_revokes_def)

lemma only_revokes_append [simp]:
  "only_revokes xs \<Longrightarrow> only_revokes ys \<Longrightarrow> only_revokes (xs @ ys)"
  by (simp add: only_revokes_def)

lemma only_revokes_revoke_url [simp]: "only_revokes (revoke_url u)"
  by (cases u) (simp_all add: only_revokes_def)

lemma only_revokes_concat:
  "(\<And>x. x \<in> set xs \<Longrightarrow> only_revokes (f x)) \<Longrightarrow> only_revokes (concat (map f xs))"
  by (induction xs) simp_all

lemma only_revokes_cleanup [simp]: "only_revokes (cleanup d)"
  by (auto simp: cleanup_def intro!: only_revokes_append only_revokes_concat
      split: option.splits list.splits)

lemma quiet_map_revoke [simp]:
  "http_indices (map RevokeObjectURL ns) = []"
  "published (map RevokeObjectURL ns) = []"
  "clear_calls (map RevokeObjectURL ns) = []"
  "saved_docs (map RevokeObjectURL ns) = []"
  "created (map RevokeObjectURL ns) = []"
  "keyed_calls (map RevokeObjectURL ns) = []"
  "started (map RevokeObjectURL ns) = []"
  by (induction ns) simp_all

text \<open>The cleanup effect revokes and does nothing else.\<close>

lemma quiet_cleanup [simp]:
  "http_indices (cleanup d) = []"
  "published (cleanup d) = []"
  "clear_calls (cleanup d) = []"
  "saved_docs (cleanup d) = []"
  "created (cleanup d) = []"
  "keyed_calls (cleanup d) = []"
  "started (cleanup d) = []"
  using only_revokes_cleanup[of d] unfolding only_revokes_def
  by (metis quiet_map_revoke(1), metis quiet_map_revoke(2), metis quiet_map_revoke(3),
      metis quiet_map_revoke(4), metis quiet_map_revoke(5), metis quiet_map_revoke(6),
      metis quiet_map_revoke(7))

subsection \<open>The role and read-only gate\<close>

lemma gate_isLoading [simp]: "gate env (s\<lparr>isLoading := b\<rparr>) = gate env s"
  by (simp add: gate_def)

lemma fetchData_gate_closed: "\<not> gate env s \<Longrightarrow> fetchData env s = s\<lparr>isLoading := True\<rparr>"
  by (simp add: fetchData_def Let_def)

lemma funpow_gate_closed:
  "\<not> gate env s \<Longrightarrow> (fetchData env ^^ Suc n) s = s\<lparr>isLoading := True\<rparr>"
proof (induction n)
  case 0
  then show ?case by (simp add: fetchData_gate_closed)
next
  case (Suc n)
  have "(fetchData env ^^ Suc (Suc n)) s = fetchData env ((fetchData env ^^ Suc n) s)"
    by simp
  also have "\<dots> = fetchData env (s\<lparr>isLoading := True\<rparr>)"
    using Suc by simp
  also have "\<dots> = s\<lparr>isLoading := True\<rparr>"
    using Suc.prems by (simp add: fetchData_gate_closed)
  finally show ?case .
qed

text \<open>
  Claim C10. When the session is read-only, or the stored role id is neither \<open>"1"\<close>
  nor \<open>"15"\<close>, an invocation of the fetch pipeline through any of its three entry
  points (mount, retry interval, \<open>refreshData\<close>) returns the state it was given with
  \<open>isLoading\<close> set to \<open>True\<close>: no other field changes and the trace is the same, so no
  network call and no cache access was made. The same holds after any number
  \<open>Suc n\<close> of invocations: \<open>isLoading\<close> is never set back to \<open>False\<close>.
\<close>

theorem gate_closed_fetch_is_inert:
  assumes "readOnly s \<or> (roleid env \<noteq> Some ''1'' \<and> roleid env \<noteq> Some ''15'')"
  shows "initializeData env s = s\<lparr>isLoading := True\<rparr>
       \<and> retry_tick env s = s\<lparr>isLoading := True\<rparr>
       \<and> refreshData env s = s\<lparr>isLoading := True\<rparr>
       \<and> (fetchData env ^^ Suc n) s = s\<lparr>isLoading := True\<rparr>
       \<and> trace ((fetchData env ^^ Suc n) s) = trace s
       \<and> isLoading ((fetchData env ^^ Suc n) s)"
proof -
  from assms have g: "\<not> gate env s" by (auto simp: gate_def)
  show ?thesis
    using funpow_gate_closed[OF g, of n] fetchData_gate_closed[OF g]
    by (simp add: initializeData_def retry_tick_def refreshData_def del: funpow.simps)
qed

theorem gate_closed_fetch_is_inert_witness:
  "readOnly (initial_state True)
   \<and> isLoading ((fetchData example_env ^^ Suc 2) (initial_state True))
   \<and> trace ((fetchData example_env ^^ Suc 2) (initial_state True)) = []
   \<and> refreshData example_env (initial_state True) = (initial_state True)\<lparr>isLoading := True\<rparr>"
  using gate_closed_fetch_is_inert[of "initial_state True" example_env 2]
  by (simp add: initial_state_def del: funpow.simps)

subsection \<open>Background hydration\<close>


lemma fetch_one_http_indices:
  "http_indices (trace (fetch_one env taskId z i s)) = http_indices (trace s) @ [i, i]"
  by (simp add: fetch_one_def Let_def emit_def download_failed_def createObjectURL_def setData_def
      split: sum.splits option.splits prod.splits)

lemma fetch_loop_http_indices:
  "http_indices (trace (fetchRemainingDocuments env taskId z k s)) =
     http_indices (trace s) @ concat (map (\<lambda>i. [i, i]) [k..<length (imageurl z)])"
proof (induction env taskId z k s rule: fetchRemainingDocuments.induct)
  case (1 env taskId zoningDocs i s)
  show ?case
  proof (cases "i < length (imageurl zoningDocs)")
    case True
    then show ?thesis
      using "1.IH"
      by (subst fetchRemainingDocuments.simps) (simp add: upt_conv_Cons fetch_one_http_indices)
  next
    case False
    then show ?thesis by (subst fetchRemainingDocuments.simps) simp
  qed
qed





lemma fetch_pair_Inr:
  "fetch_pair env a c = Inr (b, j) \<longleftrightarrow>
     (\<exists>ir jr. http_get env a = Inr ir \<and> http_get env c = Inr jr
        \<and> blob_body ir = Inr b \<and> json_body jr = Inr j)"
  by (auto simp: fetch_pair_def split: sum.splits)

lemma http_requests_append [simp]:
  "http_requests (xs @ ys) = http_requests xs @ http_requests ys"
  by (induction xs rule: http_requests.induct) simp_all

lemma http_requests_revokes: "http_requests (map RevokeObjectURL ns) = []"
  by (induction ns) simp_all

lemma http_requests_cleanup [simp]: "http_requests (cleanup d) = []"
proof -
  have "cleanup d = map RevokeObjectURL (revoked (cleanup d))"
    using only_revokes_cleanup[of d] by (simp add: only_revokes_def)
  then obtain ns where "cleanup d = map RevokeObjectURL ns" ..
  then show ?thesis by (simp add: http_requests_revokes)
qed






subsection \<open>The synchronous part of \<open>fetchData\<close>\<close>

lemma fetchData_success:
  assumes "gate env s" "getAgentTaskDetails env (roleid env) = Inr r" "status r"
    "main_payload r \<noteq> EmptyString"
  shows "fetchData env s =
    (keyed_on env (payload_taskid (main_payload r))
       (hydrate env (main_payload r)
          (task_switch env (payload_taskid (main_payload r))
             (emit (CallGetAgentTaskDetails (roleid env)) (s\<lparr>isLoading := True\<rparr>)))))
    \<lparr>isLoading := False\<rparr>"
  using assms by (simp add: fetchData_def Let_def)

lemma task_switch_trace:
  "\<exists>evs. trace (task_switch env t s) = trace s @ evs
     \<and> http_indices evs = [] \<and> published evs = [] \<and> saved_docs evs = []
     \<and> created evs = [] \<and> keyed_calls evs = [] \<and> revoked evs = [] \<and> started evs = []"
  by (auto simp: task_switch_def Let_def emit_def split: option.splits sum.splits)

lemma task_switch_fields [simp]:
  "data (task_switch env t s) = data s"
  "pending (task_switch env t s) = pending s"
  "nextHandle (task_switch env t s) = nextHandle s"
  "formStatus (task_switch env t s) = formStatus s"
  "prevTaskIdRef (task_switch env t s) = t"
  by (auto simp: task_switch_def Let_def emit_def split: option.splits sum.splits)

lemma keyed_on_trace:
  "\<exists>evs. trace (keyed_on env t s) = trace s @ evs
     \<and> http_indices evs = [] \<and> saved_docs evs = [] \<and> created evs = [] \<and> clear_calls evs = []
     \<and> started evs = []"
  by (auto simp: keyed_on_def Let_def emit_def outer_catch_def setData_def
      split: option.splits sum.splits)

lemma keyed_on_fields [simp]:
  "pending (keyed_on env t s) = pending s"
  "prevTaskIdRef (keyed_on env t s) = prevTaskIdRef s"
  "formStatus (keyed_on env t s) = formStatus s"
  "nextHandle (keyed_on env t s) = nextHandle s"
  by (auto simp: keyed_on_def Let_def emit_def outer_catch_def setData_def
      split: option.splits sum.splits)

lemma hydrate_hit:
  assumes "zoningdocuments td = Some z" "first_truthy (imageurl z)" "first_truthy (jsonurl z)"
    "getAllDocuments env (taskid td) = Inr cached" "cached \<noteq> []"
  shows "hydrate env (TaskObj td) s =
    s\<lparr>data := Some (enriched_hit td z cached), formStatus := VALID,
      pending := pending s @ (if length cached < length (imageurl z)
                              then [(taskid td, z, length cached)] else []),
      trace := trace s @ [CallGetAllDocuments (taskid td), Console Info (UsingCached (length cached)),
                SetData (Some (enriched_hit td z cached))] @ cleanup (data s)
               @ (if length cached < length (imageurl z)
                  then [StartBackground (taskid td) (length cached)] else [])\<rparr>"
  using assms
  by (simp add: hydrate_def cache_hit_def Let_def emit_def setData_def start_background_def)

lemma hydrate_miss:
  assumes "zoningdocuments td = Some z" "first_truthy (imageurl z)" "first_truthy (jsonurl z)"
    "getAllDocuments env (taskid td) = Inr []"
    "http_get env (image_ref env z 0) = Inr ir" "http_get env (json_ref env z 0) = Inr jr"
    "blob_body ir = Inr b" "json_body jr = Inr j" "saveDocument env (taskid td) 0 b j = Inr ok"
  shows "hydrate env (TaskObj td) s =
    s\<lparr>data := Some (enriched_miss td z (BlobUrl (nextHandle s)) j), formStatus := VALID,
      nextHandle := Suc (nextHandle s),
      pending := pending s @ (if 1 < length (imageurl z) then [(taskid td, z, 1)] else []),
      trace := trace s @ [CallGetAllDocuments (taskid td),
                HttpGet 0 ImageReq (image_ref env z 0), HttpGet 0 JsonReq (json_ref env z 0),
                CreateObjectURL (nextHandle s), CallSaveDocument (taskid td) 0 b j,
                SetData (Some (enriched_miss td z (BlobUrl (nextHandle s)) j))] @ cleanup (data s)
               @ (if 1 < length (imageurl z) then [StartBackground (taskid td) 1] else [])\<rparr>"
  using assms
  by (simp add: hydrate_def cache_miss_def Let_def emit_def setData_def start_background_def
      createObjectURL_def)

lemma example_gate: "gate example_env (initial_state False)"
  by (simp add: gate_def example_env_def initial_state_def)

lemma example_refs:
  "zoningdocuments example_task = Some example_zoning"
  "first_truthy (imageurl example_zoning)" "first_truthy (jsonurl example_zoning)"
  "taskid example_task = Some ''T1''" "length (imageurl example_zoning) = 3"
  by (simp_all add: example_task_def example_zoning_def)

text \<open>
  Claim C1. On the cache-hit path (the gate is open, the task fetch succeeds with a
  task whose first image and metadata references are present, and
  \<open>getAllDocuments\<close> answers with a non-empty list \<open>cached\<close> of \<open>k\<close> documents),
  \<open>fetchData\<close> calls \<open>getAllDocuments\<close>, logs, and publishes \<open>enriched_hit\<close>: the
  task with \<open>currentDocument\<close> taken from \<open>cached[0]\<close>, \<open>allDocuments = cached\<close> and
  \<open>fromCache = true\<close>. Nothing is published before it, and \<open>fetchData\<close> itself issues
  no HTTP request at all. It starts one background job, from index \<open>k\<close>, exactly
  when \<open>k < N\<close>; and the whole run, jobs included, requests exactly the indices
  \<open>k, ..., N - 1\<close>, so none below \<open>k\<close>.
\<close>

theorem cache_hit_path:
  assumes g: "gate env s"
    and r: "getAgentTaskDetails env (roleid env) = Inr r" "status r" "main_payload r = TaskObj td"
    and z: "zoningdocuments td = Some z" "first_truthy (imageurl z)" "first_truthy (jsonurl z)"
    and c: "getAllDocuments env (taskid td) = Inr cached" "cached \<noteq> []"
  shows "(\<exists>pre post.
            trace (fetchData env s) =
              trace s @ pre
              @ [CallGetAllDocuments (taskid td), Console Info (UsingCached (length cached)),
                 SetData (Some (enriched_hit td z cached))]
              @ post
          \<and> published pre = [] \<and> http_indices pre = [] \<and> started pre = []
          \<and> http_indices post = []
          \<and> started post = (if length cached < length (imageurl z)
                             then [(taskid td, length cached)] else []))
     \<and> map_option currentDocument (zoningdocuments (enriched_hit td z cached)) =
          Some (Some \<lparr>cur_imageUrl = imageUrl (hd cached), cur_jsonData = jsonData (hd cached)\<rparr>)
     \<and> map_option allDocuments (zoningdocuments (enriched_hit td z cached)) = Some (Some cached)
     \<and> map_option fromCache (zoningdocuments (enriched_hit td z cached)) = Some (Some True)
     \<and> pending (fetchData env s) =
          pending s @ (if length cached < length (imageurl z)
                       then [(taskid td, z, length cached)] else [])
     \<and> (pending s = [] \<longrightarrow>
          http_indices (trace (settle env s)) =
            http_indices (trace s) @ concat (map (\<lambda>i. [i, i]) [length cached..<length (imageurl z)]))"
proof -
  define s2 where "s2 = emit (CallGetAgentTaskDetails (roleid env)) (s\<lparr>isLoading := True\<rparr>)"
  define X where "X = task_switch env (taskid td) s2"
  define H where "H = hydrate env (TaskObj td) X"
  define start where "start = (if length cached < length (imageurl z)
                  then [StartBackground (taskid td) (length cached)] else [])"
  have fd: "fetchData env s = (keyed_on env (taskid td) H)\<lparr>isLoading := False\<rparr>"
    using fetchData_success[OF g r(1) r(2)] r(3) by (simp add: H_def X_def s2_def)
  obtain evs1 where e1: "trace X = trace s2 @ evs1" "http_indices evs1 = []" "published evs1 = []"
    "started evs1 = []"
    using task_switch_trace[of env "taskid td" s2] unfolding X_def by blast
  obtain evs2 where e2: "trace (keyed_on env (taskid td) H) = trace H @ evs2"
    "http_indices evs2 = []" "started evs2 = []"
    using keyed_on_trace[of env "taskid td" H] by blast
  have Hs: "H = X\<lparr>data := Some (enriched_hit td z cached), formStatus := VALID,
      pending := pending X @ (if length cached < length (imageurl z)
                              then [(taskid td, z, length cached)] else []),
      trace := trace X @ [CallGetAllDocuments (taskid td), Console Info (UsingCached (length cached)),
                SetData (Some (enriched_hit td z cached))] @ cleanup (data X) @ start\<rparr>"
    unfolding H_def start_def by (rule hydrate_hit[OF z c])
  have trH: "trace H = trace X @ [CallGetAllDocuments (taskid td),
      Console Info (UsingCached (length cached)),
      SetData (Some (enriched_hit td z cached))] @ cleanup (data X) @ start"
    and pH: "pending H = pending X @ (if length cached < length (imageurl z)
                              then [(taskid td, z, length cached)] else [])"
    by (simp_all add: Hs)
  have tr: "trace (fetchData env s) =
      trace s @ ([CallGetAgentTaskDetails (roleid env)] @ evs1)
        @ [CallGetAllDocuments (taskid td), Console Info (UsingCached (length cached)),
           SetData (Some (enriched_hit td z cached))]
        @ (cleanup (data X) @ start @ evs2)"
    by (simp add: fd e2(1) trH e1(1) s2_def emit_def)
  have first: "\<exists>pre post.
            trace (fetchData env s) =
              trace s @ pre
              @ [CallGetAllDocuments (taskid td), Console Info (UsingCached (length cached)),
                 SetData (Some (enriched_hit td z cached))]
              @ post
          \<and> published pre = [] \<and> http_indices pre = [] \<and> started pre = []
          \<and> http_indices post = []
          \<and> started post = (if length cached < length (imageurl z)
                             then [(taskid td, length cached)] else [])"
    apply (rule exI[of _ "[CallGetAgentTaskDetails (roleid env)] @ evs1"])
    apply (rule exI[of _ "cleanup (data X) @ start @ evs2"])
    using tr e1 e2 by (simp add: start_def)
  have pend: "pending (fetchData env s) =
          pending s @ (if length cached < length (imageurl z)
                       then [(taskid td, z, length cached)] else [])"
    by (simp add: fd pH X_def s2_def emit_def)
  have hi: "http_indices (trace (fetchData env s)) = http_indices (trace s)"
    unfolding tr using e1 e2 by (simp add: start_def)
  have settle': "pending s = [] \<longrightarrow>
          http_indices (trace (settle env s)) =
            http_indices (trace s) @ concat (map (\<lambda>i. [i, i]) [length cached..<length (imageurl z)])"
    by (simp add: settle_def Let_def pend fetch_loop_http_indices hi)
  show ?thesis
    using first pend settle' by (simp add: enriched_hit_def)
qed

theorem cache_hit_path_witness:
  "gate cached_env (initial_state False)
   \<and> pending (initial_state False) = []
   \<and> getAllDocuments cached_env (taskid example_task) = Inr [cached_doc 0, cached_doc 1]
   \<and> (\<exists>pre post.
        trace (fetchData cached_env (initial_state False)) =
          pre @ [CallGetAllDocuments (Some ''T1''), Console Info (UsingCached 2),
                 SetData (Some (enriched_hit example_task example_zoning [cached_doc 0, cached_doc 1]))]
          @ post
        \<and> published pre = [] \<and> http_indices pre = [] \<and> started pre = []
        \<and> http_indices post = [] \<and> started post = [(Some ''T1'', 2)])
   \<and> pending (fetchData cached_env (initial_state False)) = [(Some ''T1'', example_zoning, 2)]
   \<and> http_indices (trace (settle cached_env (initial_state False))) = [2, 2]"
proof -
  have g: "gate cached_env (initial_state False)"
    using example_gate by (simp add: gate_def cached_env_def)
  have r: "getAgentTaskDetails cached_env (roleid cached_env) =
      Inr \<lparr>status = True, main_payload = TaskObj example_task, statusCode = None\<rparr>"
    by (simp add: cached_env_def example_env_def)
  have c: "getAllDocuments cached_env (taskid example_task) = Inr [cached_doc 0, cached_doc 1]"
    by (simp add: cached_env_def)
  have init: "trace (initial_state False) = []" "pending (initial_state False) = []"
    by (simp_all add: initial_state_def)
  note t = cache_hit_path[OF g r _ _ example_refs(1,2,3) c]
  show ?thesis
    using g c t by (simp add: init example_refs upt_rec numeral_2_eq_2)
qed

lemma fetch_pair_Inl_cases:
  "fetch_pair env a c = Inl e \<Longrightarrow>
     http_get env a = Inl e
     \<or> (\<exists>ir. http_get env a = Inr ir \<and> http_get env c = Inl e)
     \<or> (\<exists>ir jr. http_get env a = Inr ir \<and> http_get env c = Inr jr \<and> blob_body ir = Inl e)
     \<or> (\<exists>ir jr b. http_get env a = Inr ir \<and> http_get env c = Inr jr \<and> blob_body ir = Inr b
           \<and> json_body jr = Inl e)"
  by (auto simp: fetch_pair_def split: sum.splits)

lemma hydrate_miss_pair_failed:
  assumes "zoningdocuments td = Some z" "first_truthy (imageurl z)" "first_truthy (jsonurl z)"
    "getAllDocuments env (taskid td) = Inr []"
    "fetch_pair env (image_ref env z 0) (json_ref env z 0) = Inl e"
  shows "trace (hydrate env (TaskObj td) s) =
           trace s @ [CallGetAllDocuments (taskid td),
                HttpGet 0 ImageReq (image_ref env z 0), HttpGet 0 JsonReq (json_ref env z 0)]
           @ (case http_get env (image_ref env z 0) of
                Inl e' \<Rightarrow> []
              | Inr ir \<Rightarrow>
                  (case http_get env (json_ref env z 0) of
                     Inl e' \<Rightarrow> []
                   | Inr jr \<Rightarrow>
                       (case blob_body ir of
                          Inl e' \<Rightarrow> []
                        | Inr b' \<Rightarrow> [CreateObjectURL (nextHandle s)])))
           @ [SetData (Some (td\<lparr>zoningdocuments := None\<rparr>))] @ cleanup (data s)"
    and "pending (hydrate env (TaskObj td) s) = pending s"
  using fetch_pair_Inl_cases[OF assms(5)] assms(1-4)
  by (auto simp: hydrate_def cache_miss_def Let_def emit_def setData_def drop_documents_def
      createObjectURL_def)

lemma hydrate_miss_save_failed:
  assumes "zoningdocuments td = Some z" "first_truthy (imageurl z)" "first_truthy (jsonurl z)"
    "getAllDocuments env (taskid td) = Inr []"
    "fetch_pair env (image_ref env z 0) (json_ref env z 0) = Inr (b, j)"
    "saveDocument env (taskid td) 0 b j = Inl e"
  shows "trace (hydrate env (TaskObj td) s) =
           trace s @ [CallGetAllDocuments (taskid td),
                HttpGet 0 ImageReq (image_ref env z 0), HttpGet 0 JsonReq (json_ref env z 0),
                CreateObjectURL (nextHandle s), CallSaveDocument (taskid td) 0 b j,
                SetData (Some (td\<lparr>zoningdocuments := None\<rparr>))] @ cleanup (data s)"
    and "pending (hydrate env (TaskObj td) s) = pending s"
  using assms(5)[unfolded fetch_pair_Inr] assms(1-4,6)
  by (auto simp: hydrate_def cache_miss_def Let_def emit_def setData_def drop_documents_def
      createObjectURL_def)

text \<open>
  Claim C2, as amended. On the cache-miss path (the gate is open, the task fetch succeeds with a
  task whose first image and metadata references are present, and \<open>getAllDocuments\<close>
  answers with the empty list), \<open>fetchData\<close> issues exactly one request pair, for
  index 0, image then metadata with nothing between them and nothing published
  before them, at the addresses of the first entries of the two reference arrays.

  When the two requests, the two body reads and the cache write succeed, it creates
  the object URL, saves the document under \<open>(taskId, 0)\<close>, and only then publishes
  the task with \<open>currentDocument\<close> the fetched document, \<open>allDocuments = [doc0]\<close>,
  \<open>totalCount = N\<close> and \<open>fromCache = false\<close>. It starts one background job, from
  index 1, exactly when \<open>N > 1\<close>, and the whole run requests each index
  \<open>0, ..., N - 1\<close> once.

  When the cache write fails, or a request or a body read before it, the \<open>catch\<close> of
  lines 242-251 publishes the task without its documents; no background job is
  started and the whole run requests index 0 only. (The object URL exists by then if
  \<open>blob()\<close> succeeded.)
\<close>

theorem cache_miss_path:
  assumes g: "gate env s"
    and r: "getAgentTaskDetails env (roleid env) = Inr r" "status r" "main_payload r = TaskObj td"
    and z: "zoningdocuments td = Some z" "first_truthy (imageurl z)" "first_truthy (jsonurl z)"
    and m: "getAllDocuments env (taskid td) = Inr []"
  shows "(fetch_pair env (image_ref env z 0) (json_ref env z 0) = Inr (b, j)
          \<and> saveDocument env (taskid td) 0 b j = Inr () \<longrightarrow>
          (\<exists>pre post.
            trace (fetchData env s) =
              trace s @ pre
              @ [CallGetAllDocuments (taskid td),
                 HttpGet 0 ImageReq (image_ref env z 0), HttpGet 0 JsonReq (json_ref env z 0),
                 CreateObjectURL (nextHandle s), CallSaveDocument (taskid td) 0 b j,
                 SetData (Some (td\<lparr>zoningdocuments := Some (z
                   \<lparr>currentDocument :=
                      Some \<lparr>cur_imageUrl = BlobUrl (nextHandle s), cur_jsonData = j\<rparr>,
                    allDocuments :=
                      Some [\<lparr>index = 0, imageUrl = BlobUrl (nextHandle s), jsonData = j\<rparr>],
                    totalCount := Some (length (imageurl z)),
                    fromCache := Some False\<rparr>)\<rparr>))]
              @ post
            \<and> published pre = [] \<and> http_indices pre = [] \<and> saved_docs pre = [] \<and> started pre = []
            \<and> http_indices post = [] \<and> saved_docs post = []
            \<and> started post = (if 1 < length (imageurl z) then [(taskid td, 1)] else []))
          \<and> pending (fetchData env s) =
               pending s @ (if 1 < length (imageurl z) then [(taskid td, z, 1)] else [])
          \<and> (pending s = [] \<longrightarrow>
               http_indices (trace (settle env s)) =
                 http_indices (trace s) @ concat (map (\<lambda>i. [i, i]) [0..<length (imageurl z)])))
     \<and> (fetch_pair env (image_ref env z 0) (json_ref env z 0) = Inr (b, j)
          \<and> saveDocument env (taskid td) 0 b j = Inl e \<longrightarrow>
          (\<exists>pre post.
            trace (fetchData env s) =
              trace s @ pre
              @ [CallGetAllDocuments (taskid td),
                 HttpGet 0 ImageReq (image_ref env z 0), HttpGet 0 JsonReq (json_ref env z 0),
                 CreateObjectURL (nextHandle s), CallSaveDocument (taskid td) 0 b j,
                 SetData (Some (td\<lparr>zoningdocuments := None\<rparr>))]
              @ post
            \<and> published pre = [] \<and> http_indices pre = [] \<and> saved_docs pre = [] \<and> started pre = []
            \<and> http_indices post = [] \<and> saved_docs post = [] \<and> started post = [])
          \<and> pending (fetchData env s) = pending s
          \<and> (pending s = [] \<longrightarrow>
               http_indices (trace (settle env s)) = http_indices (trace s) @ [0, 0]))
     \<and> (fetch_pair env (image_ref env z 0) (json_ref env z 0) = Inl e \<longrightarrow>
          (\<exists>pre post.
            trace (fetchData env s) =
              trace s @ pre
              @ [CallGetAllDocuments (taskid td),
                 HttpGet 0 ImageReq (image_ref env z 0), HttpGet 0 JsonReq (json_ref env z 0)]
              @ (case http_get env (image_ref env z 0) of
                    Inl e' \<Rightarrow> []
                  | Inr ir \<Rightarrow>
                      (case http_get env (json_ref env z 0) of
                         Inl e' \<Rightarrow> []
                       | Inr jr \<Rightarrow>
                           (case blob_body ir of
                              Inl e' \<Rightarrow> []
                            | Inr b' \<Rightarrow> [CreateObjectURL (nextHandle s)])))
              @ [SetData (Some (td\<lparr>zoningdocuments := None\<rparr>))]
              @ post
            \<and> published pre = [] \<and> http_indices pre = [] \<and> saved_docs pre = [] \<and> started pre = []
            \<and> http_indices post = [] \<and> saved_docs post = [] \<and> started post = [])
          \<and> pending (fetchData env s) = pending s
          \<and> (pending s = [] \<longrightarrow>
               http_indices (trace (settle env s)) = http_indices (trace s) @ [0, 0]))
     \<and> image_ref env z 0 = getGenericURL env (Some (imageurl z ! 0))
     \<and> json_ref env z 0 = getGenericURL env (Some (jsonurl z ! 0))
     \<and> (fetch_pair env u v = Inr (b, j) \<longleftrightarrow>
         (\<exists>ir jr. http_get env u = Inr ir \<and> http_get env v = Inr jr
            \<and> blob_body ir = Inr b \<and> json_body jr = Inr j))"
proof -
  define s2 where "s2 = emit (CallGetAgentTaskDetails (roleid env)) (s\<lparr>isLoading := True\<rparr>)"
  define X where "X = task_switch env (taskid td) s2"
  define H where "H = hydrate env (TaskObj td) X"
  define start where "start = (if 1 < length (imageurl z)
                  then [StartBackground (taskid td) 1] else [])"
  have nX: "nextHandle X = nextHandle s" "pending X = pending s" "data X = data s"
    by (simp_all add: X_def s2_def emit_def)
  have fd: "fetchData env s = (keyed_on env (taskid td) H)\<lparr>isLoading := False\<rparr>"
    using fetchData_success[OF g r(1) r(2)] r(3) by (simp add: H_def X_def s2_def)
  obtain evs1 where e1: "trace X = trace s2 @ evs1" "http_indices evs1 = []" "published evs1 = []"
    "started evs1 = []" "saved_docs evs1 = []"
    using task_switch_trace[of env "taskid td" s2] unfolding X_def by blast
  obtain evs2 where e2: "trace (keyed_on env (taskid td) H) = trace H @ evs2"
    "http_indices evs2 = []" "started evs2 = []" "saved_docs evs2 = []"
    using keyed_on_trace[of env "taskid td" H] by blast
  have trfd: "trace (fetchData env s) = trace H @ evs2"
    by (simp add: fd e2(1))
  have trX: "trace X = trace s @ [CallGetAgentTaskDetails (roleid env)] @ evs1"
    by (simp add: e1(1) s2_def emit_def)
  have pfd: "pending (fetchData env s) = pending H"
    by (simp add: fd)
  have pos: "0 < length (imageurl z)" "0 < length (jsonurl z)"
    using z(2,3) by (cases "imageurl z"; cases "jsonurl z"; simp)+
  have settle_quiet: "http_indices (trace (settle env s)) = http_indices (trace (fetchData env s))"
    if "pending (fetchData env s) = []"
    using that by (simp add: settle_def Let_def)
  have ok: "(\<exists>pre post.
            trace (fetchData env s) =
              trace s @ pre
              @ [CallGetAllDocuments (taskid td),
                 HttpGet 0 ImageReq (image_ref env z 0), HttpGet 0 JsonReq (json_ref env z 0),
                 CreateObjectURL (nextHandle s), CallSaveDocument (taskid td) 0 b j,
                 SetData (Some (td\<lparr>zoningdocuments := Some (z
                   \<lparr>currentDocument :=
                      Some \<lparr>cur_imageUrl = BlobUrl (nextHandle s), cur_jsonData = j\<rparr>,
                    allDocuments :=
                      Some [\<lparr>index = 0, imageUrl = BlobUrl (nextHandle s), jsonData = j\<rparr>],
                    totalCount := Some (length (imageurl z)),
                    fromCache := Some False\<rparr>)\<rparr>))]
              @ post
            \<and> published pre = [] \<and> http_indices pre = [] \<and> saved_docs pre = [] \<and> started pre = []
            \<and> http_indices post = [] \<and> saved_docs post = []
            \<and> started post = (if 1 < length (imageurl z) then [(taskid td, 1)] else []))
          \<and> pending (fetchData env s) =
               pending s @ (if 1 < length (imageurl z) then [(taskid td, z, 1)] else [])
          \<and> (pending s = [] \<longrightarrow>
               http_indices (trace (settle env s)) =
                 http_indices (trace s) @ concat (map (\<lambda>i. [i, i]) [0..<length (imageurl z)]))"
    if f: "fetch_pair env (image_ref env z 0) (json_ref env z 0) = Inr (b, j)"
      "saveDocument env (taskid td) 0 b j = Inr ()"
  proof -
    define p where "p = enriched_miss td z (BlobUrl (nextHandle s)) j"
    obtain ir jr where f': "http_get env (image_ref env z 0) = Inr ir"
      "http_get env (json_ref env z 0) = Inr jr" "blob_body ir = Inr b" "json_body jr = Inr j"
      using f(1) unfolding fetch_pair_Inr by blast
    have Hs: "H = X\<lparr>data := Some p, formStatus := VALID,
        nextHandle := Suc (nextHandle X),
        pending := pending X @ (if 1 < length (imageurl z) then [(taskid td, z, 1)] else []),
        trace := trace X @ [CallGetAllDocuments (taskid td),
                  HttpGet 0 ImageReq (image_ref env z 0), HttpGet 0 JsonReq (json_ref env z 0),
                  CreateObjectURL (nextHandle X), CallSaveDocument (taskid td) 0 b j,
                  SetData (Some p)] @ cleanup (data X) @ start\<rparr>"
      unfolding H_def start_def p_def nX[symmetric] by (rule hydrate_miss[OF z m f' f(2)])
    have trH: "trace H = trace X @ [CallGetAllDocuments (taskid td),
                  HttpGet 0 ImageReq (image_ref env z 0), HttpGet 0 JsonReq (json_ref env z 0),
                  CreateObjectURL (nextHandle s), CallSaveDocument (taskid td) 0 b j,
                  SetData (Some p)] @ cleanup (data X) @ start"
      and pH: "pending H = pending s @ (if 1 < length (imageurl z) then [(taskid td, z, 1)] else [])"
      by (simp_all add: Hs nX)
    have tr: "trace (fetchData env s) =
        trace s @ ([CallGetAgentTaskDetails (roleid env)] @ evs1)
          @ [CallGetAllDocuments (taskid td),
                  HttpGet 0 ImageReq (image_ref env z 0), HttpGet 0 JsonReq (json_ref env z 0),
                  CreateObjectURL (nextHandle s), CallSaveDocument (taskid td) 0 b j,
                  SetData (Some p)]
          @ (cleanup (data X) @ start @ evs2)"
      by (simp add: trfd trH trX)
    have first: "\<exists>pre post.
              trace (fetchData env s) =
                trace s @ pre
                @ [CallGetAllDocuments (taskid td),
                   HttpGet 0 ImageReq (image_ref env z 0), HttpGet 0 JsonReq (json_ref env z 0),
                   CreateObjectURL (nextHandle s), CallSaveDocument (taskid td) 0 b j,
                   SetData (Some p)]
                @ post
            \<and> published pre = [] \<and> http_indices pre = [] \<and> saved_docs pre = [] \<and> started pre = []
            \<and> http_indices post = [] \<and> saved_docs post = []
            \<and> started post = (if 1 < length (imageurl z) then [(taskid td, 1)] else [])"
      apply (rule exI[of _ "[CallGetAgentTaskDetails (roleid env)] @ evs1"])
      apply (rule exI[of _ "cleanup (data X) @ start @ evs2"])
      using tr e1 e2 by (simp add: start_def)
    have pend: "pending (fetchData env s) =
            pending s @ (if 1 < length (imageurl z) then [(taskid td, z, 1)] else [])"
      by (simp add: pfd pH)
    have hi: "http_indices (trace (fetchData env s)) = http_indices (trace s) @ [0, 0]"
      unfolding tr using e1 e2 by (simp add: start_def)
    have settle': "pending s = [] \<longrightarrow>
            http_indices (trace (settle env s)) =
              http_indices (trace s) @ concat (map (\<lambda>i. [i, i]) [0..<length (imageurl z)])"
      using pos by (simp add: settle_def Let_def pend fetch_loop_http_indices hi upt_conv_Cons)
    show ?thesis
      using first pend settle' unfolding p_def by (simp add: enriched_miss_def)
  qed
  have save_failed: "(\<exists>pre post.
            trace (fetchData env s) =
              trace s @ pre
              @ [CallGetAllDocuments (taskid td),
                 HttpGet 0 ImageReq (image_ref env z 0), HttpGet 0 JsonReq (json_ref env z 0),
                 CreateObjectURL (nextHandle s), CallSaveDocument (taskid td) 0 b j,
                 SetData (Some (td\<lparr>zoningdocuments := None\<rparr>))]
              @ post
            \<and> published pre = [] \<and> http_indices pre = [] \<and> saved_docs pre = [] \<and> started pre = []
            \<and> http_indices post = [] \<and> saved_docs post = [] \<and> started post = [])
          \<and> pending (fetchData env s) = pending s
          \<and> (pending s = [] \<longrightarrow>
               http_indices (trace (settle env s)) = http_indices (trace s) @ [0, 0])"
    if f: "fetch_pair env (image_ref env z 0) (json_ref env z 0) = Inr (b, j)"
      "saveDocument env (taskid td) 0 b j = Inl e"
  proof -
    have trH: "trace H = trace X @ [CallGetAllDocuments (taskid td),
                HttpGet 0 ImageReq (image_ref env z 0), HttpGet 0 JsonReq (json_ref env z 0),
                CreateObjectURL (nextHandle s), CallSaveDocument (taskid td) 0 b j,
                SetData (Some (td\<lparr>zoningdocuments := None\<rparr>))] @ cleanup (data X)"
      and pH: "pending H = pending s"
      using hydrate_miss_save_failed[OF z m f, of X] by (simp_all add: H_def nX)
    have tr: "trace (fetchData env s) =
        trace s @ ([CallGetAgentTaskDetails (roleid env)] @ evs1)
          @ [CallGetAllDocuments (taskid td),
                HttpGet 0 ImageReq (image_ref env z 0), HttpGet 0 JsonReq (json_ref env z 0),
                CreateObjectURL (nextHandle s), CallSaveDocument (taskid td) 0 b j,
                SetData (Some (td\<lparr>zoningdocuments := None\<rparr>))]
          @ (cleanup (data X) @ evs2)"
      by (simp add: trfd trH trX)
    have first: "\<exists>pre post.
            trace (fetchData env s) =
              trace s @ pre
              @ [CallGetAllDocuments (taskid td),
                 HttpGet 0 ImageReq (image_ref env z 0), HttpGet 0 JsonReq (json_ref env z 0),
                 CreateObjectURL (nextHandle s), CallSaveDocument (taskid td) 0 b j,
                 SetData (Some (td\<lparr>zoningdocuments := None\<rparr>))]
              @ post
            \<and> published pre = [] \<and> http_indices pre = [] \<and> saved_docs pre = [] \<and> started pre = []
            \<and> http_indices post = [] \<and> saved_docs post = [] \<and> started post = []"
      apply (rule exI[of _ "[CallGetAgentTaskDetails (roleid env)] @ evs1"])
      apply (rule exI[of _ "cleanup (data X) @ evs2"])
      using tr e1 e2 by simp
    have pend: "pending (fetchData env s) = pending s"
      by (simp add: pfd pH)
    have hi: "http_indices (trace (fetchData env s)) = http_indices (trace s) @ [0, 0]"
      unfolding tr using e1 e2 by simp
    have settle': "pending s = [] \<longrightarrow>
               http_indices (trace (settle env s)) = http_indices (trace s) @ [0, 0]"
      using settle_quiet by (simp add: pend hi)
    show ?thesis
      using first pend settle' by blast
  qed
  define mid where "mid = (case http_get env (image_ref env z 0) of
                    Inl e' \<Rightarrow> []
                  | Inr ir \<Rightarrow>
                      (case http_get env (json_ref env z 0) of
                         Inl e' \<Rightarrow> []
                       | Inr jr \<Rightarrow>
                           (case blob_body ir of
                              Inl e' \<Rightarrow> []
                            | Inr b' \<Rightarrow> [CreateObjectURL (nextHandle s)])))"
  have mid: "mid = [] \<or> mid = [CreateObjectURL (nextHandle s)]"
    by (simp add: mid_def split: sum.splits)
  have pair_failed: "(\<exists>pre post.
            trace (fetchData env s) =
              trace s @ pre
              @ [CallGetAllDocuments (taskid td),
                 HttpGet 0 ImageReq (image_ref env z 0), HttpGet 0 JsonReq (json_ref env z 0)]
              @ mid @ [SetData (Some (td\<lparr>zoningdocuments := None\<rparr>))]
              @ post
            \<and> published pre = [] \<and> http_indices pre = [] \<and> saved_docs pre = [] \<and> started pre = []
            \<and> http_indices post = [] \<and> saved_docs post = [] \<and> started post = [])
          \<and> pending (fetchData env s) = pending s
          \<and> (pending s = [] \<longrightarrow>
               http_indices (trace (settle env s)) = http_indices (trace s) @ [0, 0])"
    if f: "fetch_pair env (image_ref env z 0) (json_ref env z 0) = Inl e"
  proof -
    have trH: "trace H = trace X @ [CallGetAllDocuments (taskid td),
                HttpGet 0 ImageReq (image_ref env z 0), HttpGet 0 JsonReq (json_ref env z 0)]
           @ mid @ [SetData (Some (td\<lparr>zoningdocuments := None\<rparr>))] @ cleanup (data X)"
      using hydrate_miss_pair_failed(1)[OF z m f, of X] unfolding H_def nX mid_def .
    have pH: "pending H = pending s"
      using hydrate_miss_pair_failed(2)[OF z m f, of X] by (simp add: H_def nX)
    have tr: "trace (fetchData env s) =
        trace s @ ([CallGetAgentTaskDetails (roleid env)] @ evs1)
          @ [CallGetAllDocuments (taskid td),
                HttpGet 0 ImageReq (image_ref env z 0), HttpGet 0 JsonReq (json_ref env z 0)]
          @ mid @ [SetData (Some (td\<lparr>zoningdocuments := None\<rparr>))]
          @ (cleanup (data X) @ evs2)"
      by (simp add: trfd trH trX)
    have first: "\<exists>pre post.
            trace (fetchData env s) =
              trace s @ pre
              @ [CallGetAllDocuments (taskid td),
                 HttpGet 0 ImageReq (image_ref env z 0), HttpGet 0 JsonReq (json_ref env z 0)]
              @ mid @ [SetData (Some (td\<lparr>zoningdocuments := None\<rparr>))]
              @ post
            \<and> published pre = [] \<and> http_indices pre = [] \<and> saved_docs pre = [] \<and> started pre = []
            \<and> http_indices post = [] \<and> saved_docs post = [] \<and> started post = []"
      apply (rule exI[of _ "[CallGetAgentTaskDetails (roleid env)] @ evs1"])
      apply (rule exI[of _ "cleanup (data X) @ evs2"])
      using tr e1 e2 by simp
    have pend: "pending (fetchData env s) = pending s"
      by (simp add: pfd pH)
    have hi: "http_indices (trace (fetchData env s)) = http_indices (trace s) @ [0, 0]"
      unfolding tr using e1 e2 mid by auto
    have settle': "pending s = [] \<longrightarrow>
               http_indices (trace (settle env s)) = http_indices (trace s) @ [0, 0]"
      using settle_quiet by (simp add: pend hi)
    show ?thesis
      using first pend settle' by blast
  qed
  have refs: "image_ref env z 0 = getGenericURL env (Some (imageurl z ! 0))"
    "json_ref env z 0 = getGenericURL env (Some (jsonurl z ! 0))"
    using pos by (simp_all add: image_ref_def json_ref_def nth_opt_def)
  show ?thesis
    using ok save_failed pair_failed[unfolded mid_def] refs fetch_pair_Inr[of env u v b j]
    by blast
qed

theorem cache_miss_path_witness:
  "gate example_env (initial_state False)
   \<and> pending (initial_state False) = []
   \<and> getAllDocuments example_env (taskid example_task) = Inr []
   \<and> fetch_pair example_env ''img0'' ''meta0'' = Inr (Blob 4, Json 5)
   \<and> saveDocument example_env (Some ''T1'') 0 (Blob 4) (Json 5) = Inr ()
   \<and> (\<exists>pre post.
        trace (fetchData example_env (initial_state False)) =
          pre @ [CallGetAllDocuments (Some ''T1''),
                 HttpGet 0 ImageReq ''img0'', HttpGet 0 JsonReq ''meta0'',
                 CreateObjectURL 0, CallSaveDocument (Some ''T1'') 0 (Blob 4) (Json 5),
                 SetData (Some (enriched_miss example_task example_zoning (BlobUrl 0) (Json 5)))]
          @ post
        \<and> published pre = [] \<and> http_indices pre = [] \<and> saved_docs pre = [] \<and> started pre = []
        \<and> http_indices post = [] \<and> saved_docs post = [] \<and> started post = [(Some ''T1'', 1)])
   \<and> pending (fetchData example_env (initial_state False)) = [(Some ''T1'', example_zoning, 1)]
   \<and> http_indices (trace (settle example_env (initial_state False))) = [0, 0, 1, 1, 2, 2]
   \<and> saveDocument save_refused_env (Some ''T1'') 0 (Blob 4) (Json 5) = Inl (Exn ''quota'')
   \<and> (\<exists>pre post.
        trace (fetchData save_refused_env (initial_state False)) =
          pre @ [CallGetAllDocuments (Some ''T1''),
                 HttpGet 0 ImageReq ''img0'', HttpGet 0 JsonReq ''meta0'',
                 CreateObjectURL 0, CallSaveDocument (Some ''T1'') 0 (Blob 4) (Json 5),
                 SetData (Some (example_task\<lparr>zoningdocuments := None\<rparr>))]
          @ post
        \<and> published pre = [] \<and> http_indices pre = [] \<and> saved_docs pre = [] \<and> started pre = []
        \<and> http_indices post = [] \<and> saved_docs post = [] \<and> started post = [])
   \<and> pending (fetchData save_refused_env (initial_state False)) = []
   \<and> http_indices (trace (settle save_refused_env (initial_state False))) = [0, 0]
   \<and> fetch_pair broken_json_env ''img0'' ''meta0'' = Inl (Exn ''SyntaxError'')
   \<and> (\<exists>pre post.
        trace (fetchData broken_json_env (initial_state False)) =
          pre @ [CallGetAllDocuments (Some ''T1''),
                 HttpGet 0 ImageReq ''img0'', HttpGet 0 JsonReq ''meta0'',
                 CreateObjectURL 0,
                 SetData (Some (example_task\<lparr>zoningdocuments := None\<rparr>))]
          @ post
        \<and> published pre = [] \<and> http_indices pre = [] \<and> saved_docs pre = [] \<and> started pre = []
        \<and> http_indices post = [] \<and> saved_docs post = [] \<and> started post = [])
   \<and> pending (fetchData broken_json_env (initial_state False)) = []
   \<and> http_indices (trace (settle broken_json_env (initial_state False))) = [0, 0]"
proof -
  have g: "gate save_refused_env (initial_state False)" "gate broken_json_env (initial_state False)"
    using example_gate by (simp_all add: gate_def save_refused_env_def broken_json_env_def)
  have r: "getAgentTaskDetails example_env (roleid example_env) =
      Inr \<lparr>status = True, main_payload = TaskObj example_task, statusCode = None\<rparr>"
    "getAgentTaskDetails save_refused_env (roleid save_refused_env) =
      Inr \<lparr>status = True, main_payload = TaskObj example_task, statusCode = None\<rparr>"
    "getAgentTaskDetails broken_json_env (roleid broken_json_env) =
      Inr \<lparr>status = True, main_payload = TaskObj example_task, statusCode = None\<rparr>"
    by (simp_all add: example_env_def save_refused_env_def broken_json_env_def)
  have m: "getAllDocuments example_env (taskid example_task) = Inr []"
    "getAllDocuments save_refused_env (taskid example_task) = Inr []"
    "getAllDocuments broken_json_env (taskid example_task) = Inr []"
    by (simp_all add: example_env_def save_refused_env_def broken_json_env_def)
  have refs: "image_ref example_env example_zoning 0 = ''img0''"
    "json_ref example_env example_zoning 0 = ''meta0''"
    "image_ref save_refused_env example_zoning 0 = ''img0''"
    "json_ref save_refused_env example_zoning 0 = ''meta0''"
    "image_ref broken_json_env example_zoning 0 = ''img0''"
    "json_ref broken_json_env example_zoning 0 = ''meta0''"
    by (simp_all add: image_ref_def json_ref_def nth_opt_def example_env_def example_zoning_def
        save_refused_env_def broken_json_env_def)
  have f: "fetch_pair example_env ''img0'' ''meta0'' = Inr (Blob 4, Json 5)"
    "saveDocument example_env (Some ''T1'') 0 (Blob 4) (Json 5) = Inr ()"
    "fetch_pair save_refused_env ''img0'' ''meta0'' = Inr (Blob 4, Json 5)"
    "saveDocument save_refused_env (Some ''T1'') 0 (Blob 4) (Json 5) = Inl (Exn ''quota'')"
    "fetch_pair broken_json_env ''img0'' ''meta0'' = Inl (Exn ''SyntaxError'')"
    by (simp_all add: fetch_pair_def example_env_def save_refused_env_def broken_json_env_def)
  have init: "trace (initial_state False) = []" "pending (initial_state False) = []"
    "nextHandle (initial_state False) = 0"
    by (simp_all add: initial_state_def)
  have hb: "http_get broken_json_env u =
      Inr \<lparr>blob_body = Inr (Blob (length u)), json_body = Inl (Exn ''SyntaxError'')\<rparr>" for u
    by (simp add: broken_json_env_def)
  note t1 = cache_miss_path[OF example_gate r(1) _ _ example_refs(1,2,3) m(1),
      where b = "Blob 4" and j = "Json 5", unfolded refs example_refs(4),
      THEN conjunct1, THEN mp, OF _ _ conjI[OF f(1,2)]]
  note t2 = cache_miss_path[OF g(1) r(2) _ _ example_refs(1,2,3) m(2),
      where b = "Blob 4" and j = "Json 5" and e = "Exn ''quota''", unfolded refs example_refs(4),
      THEN conjunct2, THEN conjunct1, THEN mp, OF _ _ conjI[OF f(3,4)]]
  note t3 = cache_miss_path[OF g(2) r(3) _ _ example_refs(1,2,3) m(3),
      where e = "Exn ''SyntaxError''", unfolded refs example_refs(4),
      THEN conjunct2, THEN conjunct2, THEN conjunct1, THEN mp, OF _ _ f(5)]
  have a: "(\<exists>pre post.
        trace (fetchData example_env (initial_state False)) =
          pre @ [CallGetAllDocuments (Some ''T1''),
                 HttpGet 0 ImageReq ''img0'', HttpGet 0 JsonReq ''meta0'',
                 CreateObjectURL 0, CallSaveDocument (Some ''T1'') 0 (Blob 4) (Json 5),
                 SetData (Some (enriched_miss example_task example_zoning (BlobUrl 0) (Json 5)))]
          @ post
        \<and> published pre = [] \<and> http_indices pre = [] \<and> saved_docs pre = [] \<and> started pre = []
        \<and> http_indices post = [] \<and> saved_docs post = [] \<and> started post = [(Some ''T1'', 1)])
   \<and> pending (fetchData example_env (initial_state False)) = [(Some ''T1'', example_zoning, 1)]
   \<and> http_indices (trace (settle example_env (initial_state False))) = [0, 0, 1, 1, 2, 2]"
    using t1 by (simp add: init example_refs upt_rec numeral_2_eq_2 numeral_3_eq_3 enriched_miss_def)
  have b: "(\<exists>pre post.
        trace (fetchData save_refused_env (initial_state False)) =
          pre @ [CallGetAllDocuments (Some ''T1''),
                 HttpGet 0 ImageReq ''img0'', HttpGet 0 JsonReq ''meta0'',
                 CreateObjectURL 0, CallSaveDocument (Some ''T1'') 0 (Blob 4) (Json 5),
                 SetData (Some (example_task\<lparr>zoningdocuments := None\<rparr>))]
          @ post
        \<and> published pre = [] \<and> http_indices pre = [] \<and> saved_docs pre = [] \<and> started pre = []
        \<and> http_indices post = [] \<and> saved_docs post = [] \<and> started post = [])
   \<and> pending (fetchData save_refused_env (initial_state False)) = []
   \<and> http_indices (trace (settle save_refused_env (initial_state False))) = [0, 0]"
    using t2 by (simp add: init)
  have c: "(\<exists>pre post.
        trace (fetchData broken_json_env (initial_state False)) =
          pre @ [CallGetAllDocuments (Some ''T1''),
                 HttpGet 0 ImageReq ''img0'', HttpGet 0 JsonReq ''meta0'',
                 CreateObjectURL 0,
                 SetData (Some (example_task\<lparr>zoningdocuments := None\<rparr>))]
          @ post
        \<and> published pre = [] \<and> http_indices pre = [] \<and> saved_docs pre = [] \<and> started pre = []
        \<and> http_indices post = [] \<and> saved_docs post = [] \<and> started post = [])
   \<and> pending (fetchData broken_json_env (initial_state False)) = []
   \<and> http_indices (trace (settle broken_json_env (initial_state False))) = [0, 0]"
    using t3 by (simp add: init hb)
  show ?thesis
    using example_gate init(2) m(1) f(1,2,4,5) a b c by (intro conjI) blast+
qed

text \<open>
  The claim as worded fails when the cache refuses the first document: the task
  has three references and an empty cache, the one request pair for index 0 is
  issued, and what is published is the task without its documents; no background
  job is started.
\<close>

theorem refused_save_drops_documents:
  "getAllDocuments save_refused_env (taskid example_task) = Inr []
   \<and> length (imageurl example_zoning) = 3
   \<and> http_indices (trace (fetchData save_refused_env (initial_state False))) = [0, 0]
   \<and> saved_docs (trace (fetchData save_refused_env (initial_state False))) =
       [(Some ''T1'', 0, Blob 4, Json 5)]
   \<and> published (trace (fetchData save_refused_env (initial_state False))) =
       [Some (example_task\<lparr>zoningdocuments := None\<rparr>)]
   \<and> data (fetchData save_refused_env (initial_state False)) =
       Some (example_task\<lparr>zoningdocuments := None\<rparr>)
   \<and> started (trace (fetchData save_refused_env (initial_state False))) = []
   \<and> pending (fetchData save_refused_env (initial_state False)) = []
   \<and> http_indices (trace (settle save_refused_env (initial_state False))) = [0, 0]"
  by (simp add: run_defs save_refused_env_def)

subsection \<open>The not-provisioned answer\<close>

lemma fetchData_501:
  assumes "gate env s" "getAgentTaskDetails env (roleid env) = Inr r" "status r"
     "main_payload r = EmptyString" "statusCode r = Some 501"
  shows "fetchData env s = s\<lparr>formStatus := INVALID, isLoading := False,
      trace := trace s @ [CallGetAgentTaskDetails (roleid env)]\<rparr>"
  using assms by (simp add: fetchData_def Let_def emit_def)

text \<open>
  Claim C6, as amended. When the task fetch succeeds with an empty payload and
  status code 501, \<open>fetchData\<close> sets the exposed status to \<open>INVALID\<close> and
  \<open>isLoading\<close> to \<open>False\<close>, and does nothing else: the only call made is the task
  fetch (no hydration), \<open>data\<close> is not replaced, and the retry timer, which depends
  on \<open>data\<close> and \<open>readOnly\<close> only, is armed exactly if it was.
\<close>

theorem not_provisioned_sets_invalid:
  assumes "gate env s" "getAgentTaskDetails env (roleid env) = Inr r" "status r"
     "main_payload r = EmptyString" "statusCode r = Some 501"
  shows "fetchData env s = s\<lparr>formStatus := INVALID, isLoading := False,
      trace := trace s @ [CallGetAgentTaskDetails (roleid env)]\<rparr>
    \<and> formStatus (fetchData env s) = INVALID
    \<and> data (fetchData env s) = data s
    \<and> retry_timer_armed (fetchData env s) = retry_timer_armed s"
  using fetchData_501[OF assms] by (simp add: retry_timer_armed_def)

theorem not_provisioned_sets_invalid_witness:
  "gate unprovisioned_env (initial_state False)
   \<and> formStatus (fetchData unprovisioned_env (initial_state False)) = INVALID
   \<and> trace (fetchData unprovisioned_env (initial_state False)) = [CallGetAgentTaskDetails (Some ''1'')]
   \<and> retry_timer_armed (fetchData unprovisioned_env (initial_state False))"
proof -
  have g: "gate unprovisioned_env (initial_state False)"
    by (simp add: gate_def unprovisioned_env_def example_env_def initial_state_def)
  have r: "getAgentTaskDetails unprovisioned_env (roleid unprovisioned_env) =
      Inr \<lparr>status = True, main_payload = EmptyString, statusCode = Some 501\<rparr>"
    by (simp add: unprovisioned_env_def)
  show ?thesis
    using g not_provisioned_sets_invalid[OF g r]
    by (simp add: retry_timer_armed_def initial_state_def unprovisioned_env_def example_env_def)
qed

text \<open>
  The claim as stated fails: a fetch that succeeds with status code 501 and a
  non-empty payload takes the first branch of line 159. The status stays \<open>VALID\<close>,
  the task data is replaced and the documents are hydrated.
\<close>

theorem status_501_with_task_counterexample:
  "gate task_with_501_env (initial_state False)
   \<and> getAgentTaskDetails task_with_501_env (roleid task_with_501_env) =
       Inr \<lparr>status = True, main_payload = TaskObj example_task, statusCode = Some 501\<rparr>
   \<and> formStatus (fetchData task_with_501_env (initial_state False)) = VALID
   \<and> data (fetchData task_with_501_env (initial_state False)) \<noteq> data (initial_state False)
   \<and> http_indices (trace (fetchData task_with_501_env (initial_state False))) = [0, 0]"
  by (simp add: task_with_501_env_def example_env_def example_task_def example_zoning_def
      initial_state_def fetchData_def gate_def emit_def setData_def cleanup_def
      createObjectURL_def image_ref_def json_ref_def start_background_def task_switch_def
      cache_miss_def hydrate_def keyed_on_def nth_opt_def Let_def)

subsection \<open>The field projection of the schema\<close>










lemma schema_of_Inl: "schema_of p = Inl e \<longleftrightarrow> p = Missing \<and> e = Exn ''TypeError''"
  by (cases p) (auto simp: schema_of_def)








subsection \<open>The state operations, field by field\<close>

lemma emit_fields [simp]:
  "data (emit e s) = data s" "pending (emit e s) = pending s" "nextHandle (emit e s) = nextHandle s"
  "formStatus (emit e s) = formStatus s" "prevTaskIdRef (emit e s) = prevTaskIdRef s"
  "readOnly (emit e s) = readOnly s" "isLoading (emit e s) = isLoading s"
  "trace (emit e s) = trace s @ [e]"
  by (simp_all add: emit_def)

lemma setData_fields [simp]:
  "data (setData d s) = d" "pending (setData d s) = pending s"
  "nextHandle (setData d s) = nextHandle s"
  "formStatus (setData d s) = formStatus s" "prevTaskIdRef (setData d s) = prevTaskIdRef s"
  "readOnly (setData d s) = readOnly s" "isLoading (setData d s) = isLoading s"
  "trace (setData d s) = trace s @ SetData d # cleanup (data s)"
  by (simp_all add: setData_def)

lemma createObjectURL_fields [simp]:
  "fst (createObjectURL s) = BlobUrl (nextHandle s)"
  "data (snd (createObjectURL s)) = data s" "pending (snd (createObjectURL s)) = pending s"
  "nextHandle (snd (createObjectURL s)) = Suc (nextHandle s)"
  "formStatus (snd (createObjectURL s)) = formStatus s"
  "prevTaskIdRef (snd (createObjectURL s)) = prevTaskIdRef s"
  "readOnly (snd (createObjectURL s)) = readOnly s"
  "isLoading (snd (createObjectURL s)) = isLoading s"
  "trace (snd (createObjectURL s)) = trace s @ [CreateObjectURL (nextHandle s)]"
  by (simp_all add: createObjectURL_def)

lemma start_background_fields [simp]:
  "data (start_background t z k s) = data s"
  "pending (start_background t z k s) = pending s @ [(t, z, k)]"
  "nextHandle (start_background t z k s) = nextHandle s"
  "formStatus (start_background t z k s) = formStatus s"
  "prevTaskIdRef (start_background t z k s) = prevTaskIdRef s"
  "readOnly (start_background t z k s) = readOnly s"
  "isLoading (start_background t z k s) = isLoading s"
  "trace (start_background t z k s) = trace s @ [StartBackground t k]"
  by (simp_all add: start_background_def)

lemma drop_documents_fields [simp]:
  "data (drop_documents td s) = Some (td\<lparr>zoningdocuments := None\<rparr>)"
  "pending (drop_documents td s) = pending s"
  "nextHandle (drop_documents td s) = nextHandle s"
  "formStatus (drop_documents td s) = VALID"
  "prevTaskIdRef (drop_documents td s) = prevTaskIdRef s"
  "readOnly (drop_documents td s) = readOnly s"
  "isLoading (drop_documents td s) = isLoading s"
  "trace (drop_documents td s) = trace s @ SetData (Some (td\<lparr>zoningdocuments := None\<rparr>)) # cleanup (data s)"
  by (simp_all add: drop_documents_def)

lemma cache_miss_frame [simp]:
  "prevTaskIdRef (cache_miss env td z s) = prevTaskIdRef s"
  "readOnly (cache_miss env td z s) = readOnly s"
  "isLoading (cache_miss env td z s) = isLoading s"
  "clear_calls (trace (cache_miss env td z s)) = clear_calls (trace s)"
  by (simp_all add: cache_miss_def Let_def split_beta split: sum.splits)

lemma cache_hit_frame [simp]:
  "prevTaskIdRef (cache_hit td z c s) = prevTaskIdRef s"
  "readOnly (cache_hit td z c s) = readOnly s"
  "isLoading (cache_hit td z c s) = isLoading s"
  "clear_calls (trace (cache_hit td z c s)) = clear_calls (trace s)"
  by (simp_all add: cache_hit_def Let_def)

lemma hydrate_frame [simp]:
  "prevTaskIdRef (hydrate env p s) = prevTaskIdRef s"
  "readOnly (hydrate env p s) = readOnly s"
  "isLoading (hydrate env p s) = isLoading s"
  "clear_calls (trace (hydrate env p s)) = clear_calls (trace s)"
  by (simp_all add: hydrate_def Let_def split: payload.splits option.splits sum.splits)

subsection \<open>Eviction on a task switch\<close>

lemma outer_catch_frame [simp]:
  "prevTaskIdRef (outer_catch s) = prevTaskIdRef s"
  "readOnly (outer_catch s) = readOnly s"
  "isLoading (outer_catch s) = isLoading s"
  "clear_calls (trace (outer_catch s)) = clear_calls (trace s)"
  by (simp_all add: outer_catch_def)

lemma keyed_on_frame [simp]:
  "readOnly (keyed_on env t s) = readOnly s"
  "isLoading (keyed_on env t s) = isLoading s"
  "clear_calls (trace (keyed_on env t s)) = clear_calls (trace s)"
  by (simp_all add: keyed_on_def Let_def split: option.splits sum.splits)

lemma task_switch_frame [simp]:
  "readOnly (task_switch env t s) = readOnly s"
  "isLoading (task_switch env t s) = isLoading s"
  by (simp_all add: task_switch_def Let_def split: option.splits sum.splits)

lemma task_switch_clear_calls:
  "clear_calls (trace (task_switch env t s)) = clear_calls (trace s) @ switch_clears (prevTaskIdRef s) t"
  by (simp add: task_switch_def switch_clears_def Let_def split: option.splits sum.splits)

lemma fetchData_readOnly [simp]: "readOnly (fetchData env s) = readOnly s"
  by (simp add: fetchData_def Let_def split: sum.splits)

lemma gate_fetchData [simp]: "gate env' (fetchData env s) = gate env' s"
  by (simp add: gate_def)

lemma fetchData_clear_calls:
  assumes "gate env s" "getAgentTaskDetails env (roleid env) = Inr r" "status r"
    "main_payload r \<noteq> EmptyString"
  shows "clear_calls (trace (fetchData env s)) =
      clear_calls (trace s) @ switch_clears (prevTaskIdRef s) (payload_taskid (main_payload r))"
    and "prevTaskIdRef (fetchData env s) = payload_taskid (main_payload r)"
  by (simp_all add: fetchData_success[OF assms] task_switch_clear_calls)

lemma filter_cleanup [simp]:
  "filter (\<lambda>e. e \<noteq> Console Warn ClearCacheFailed) (cleanup d) = cleanup d"
proof -
  have "cleanup d = map RevokeObjectURL (revoked (cleanup d))"
    using only_revokes_cleanup[of d] by (simp add: only_revokes_def)
  then obtain ns where "cleanup d = map RevokeObjectURL ns" ..
  then show ?thesis by (simp add: filter_map comp_def)
qed

lemma erase_fields [simp]:
  "data (erase_warn s) = data s" "pending (erase_warn s) = pending s"
  "nextHandle (erase_warn s) = nextHandle s" "formStatus (erase_warn s) = formStatus s"
  "prevTaskIdRef (erase_warn s) = prevTaskIdRef s" "readOnly (erase_warn s) = readOnly s"
  "isLoading (erase_warn s) = isLoading s"
  by (simp_all add: erase_warn_def)

lemma erase_idem [simp]: "erase_warn (erase_warn s) = erase_warn s"
  by (simp add: erase_warn_def)

lemma erase_emit:
  "erase_warn (emit e s) =
     (if e = Console Warn ClearCacheFailed then erase_warn s else emit e (erase_warn s))"
  by (simp add: erase_warn_def emit_def)

lemma erase_setData [simp]: "erase_warn (setData d s) = setData d (erase_warn s)"
  by (simp add: erase_warn_def setData_def)

lemma erase_updates [simp]:
  "erase_warn (s\<lparr>formStatus := v\<rparr>) = (erase_warn s)\<lparr>formStatus := v\<rparr>"
  "erase_warn (s\<lparr>isLoading := b\<rparr>) = (erase_warn s)\<lparr>isLoading := b\<rparr>"
  "erase_warn (s\<lparr>prevTaskIdRef := t\<rparr>) = (erase_warn s)\<lparr>prevTaskIdRef := t\<rparr>"
  by (simp_all add: erase_warn_def)

lemma erase_createObjectURL [simp]:
  "erase_warn (snd (createObjectURL s)) = snd (createObjectURL (erase_warn s))"
  by (simp add: erase_warn_def createObjectURL_def)

lemma erase_start_background [simp]:
  "erase_warn (start_background t z k s) = start_background t z k (erase_warn s)"
  by (simp add: erase_warn_def start_background_def emit_def)

lemma erase_drop_documents [simp]:
  "erase_warn (drop_documents td s) = drop_documents td (erase_warn s)"
  by (simp add: drop_documents_def)

lemma erase_outer_catch [simp]: "erase_warn (outer_catch s) = outer_catch (erase_warn s)"
  by (simp add: outer_catch_def erase_emit)

lemma erase_cache_miss:
  "erase_warn (cache_miss env td z s) = cache_miss env td z (erase_warn s)"
  by (simp add: cache_miss_def Let_def split_beta erase_emit split: sum.splits)

lemma erase_cache_hit:
  "erase_warn (cache_hit td z c s) = cache_hit td z c (erase_warn s)"
  by (simp add: cache_hit_def Let_def erase_emit)

lemma erase_hydrate:
  "erase_warn (hydrate env p s) = hydrate env p (erase_warn s)"
  by (simp add: hydrate_def Let_def erase_emit erase_cache_miss erase_cache_hit
      split: payload.splits option.splits sum.splits)

lemma erase_keyed_on:
  "erase_warn (keyed_on env t s) = keyed_on env t (erase_warn s)"
  by (simp add: keyed_on_def Let_def erase_emit split: option.splits sum.splits)

lemma erase_task_switch:
  "erase_warn (task_switch (env\<lparr>clearTaskCache := c\<rparr>) t s) = erase_warn (task_switch env t s)"
  by (simp add: task_switch_def Let_def erase_emit split: option.splits sum.splits)

lemma cache_miss_ignores_clear:
  "cache_miss (env\<lparr>clearTaskCache := c\<rparr>) td z s = cache_miss env td z s"
  by (simp add: cache_miss_def image_ref_def json_ref_def Let_def split_beta split: sum.splits)

lemma hydrate_ignores_clear:
  "hydrate (env\<lparr>clearTaskCache := c\<rparr>) p s = hydrate env p s"
  by (simp add: hydrate_def cache_miss_ignores_clear Let_def
      split: payload.splits option.splits sum.splits)

lemma keyed_on_ignores_clear:
  "keyed_on (env\<lparr>clearTaskCache := c\<rparr>) t s = keyed_on env t s"
  by (simp add: keyed_on_def Let_def split: option.splits sum.splits)

lemma clear_outcome_only_warns:
  "erase_warn (fetchData (env\<lparr>clearTaskCache := c\<rparr>) s) = erase_warn (fetchData env s)"
proof -
  have chain: "erase_warn (keyed_on env t (hydrate env p (task_switch (env\<lparr>clearTaskCache := c\<rparr>) t X)))
      = erase_warn (keyed_on env t (hydrate env p (task_switch env t X)))" for t p X
    by (simp add: erase_keyed_on erase_hydrate erase_task_switch)
  show ?thesis
    by (simp add: fetchData_def Let_def gate_def hydrate_ignores_clear keyed_on_ignores_clear
        chain split: sum.splits)
qed

lemma cache_clearing_append [simp]:
  "cache_clearing (xs @ ys) = cache_clearing xs @ cache_clearing ys"
  by (simp add: cache_clearing_def)

lemma cache_clearing_simps [simp]:
  "cache_clearing [] = []"
  "cache_clearing (e # es) = (if is_clearing e then e # cache_clearing es else cache_clearing es)"
  by (simp_all add: cache_clearing_def)

lemma cache_clearing_cleanup [simp]: "cache_clearing (cleanup d) = []"
proof -
  have "cleanup d = map RevokeObjectURL (revoked (cleanup d))"
    using only_revokes_cleanup[of d] by (simp add: only_revokes_def)
  then obtain ns where "cleanup d = map RevokeObjectURL ns" ..
  then show ?thesis by (simp add: cache_clearing_def filter_map comp_def)
qed

lemma hydrate_clearing [simp]:
  "cache_clearing (trace (cache_miss env td z s)) = cache_clearing (trace s)"
  "cache_clearing (trace (cache_hit td z c s)) = cache_clearing (trace s)"
  "cache_clearing (trace (hydrate env p s)) = cache_clearing (trace s)"
    by (simp_all add: hydrate_def cache_miss_def cache_hit_def Let_def split_beta
        split: payload.splits option.splits sum.splits)

lemma keyed_on_clearing [simp]:
  "cache_clearing (trace (outer_catch s)) = cache_clearing (trace s)"
  "cache_clearing (trace (keyed_on env t s)) = cache_clearing (trace s)"
  by (simp_all add: outer_catch_def keyed_on_def Let_def split: option.splits sum.splits)

lemma task_switch_clearing:
  "cache_clearing (trace (task_switch env t s)) =
     cache_clearing (trace s) @ switch_events env (prevTaskIdRef s) t"
  by (simp add: task_switch_def switch_events_def Let_def split: option.splits sum.splits)

lemma fetchData_clearing:
  assumes "gate env s" "getAgentTaskDetails env (roleid env) = Inr r" "status r"
    "main_payload r \<noteq> EmptyString"
  shows "cache_clearing (trace (fetchData env s)) =
      cache_clearing (trace s)
      @ switch_events env (prevTaskIdRef s) (payload_taskid (main_payload r))"
  by (simp add: fetchData_success[OF assms] task_switch_clearing)

text \<open>
  Claim C5, as amended. Take two consecutive invocations of \<open>fetchData\<close> whose task fetches
  succeed with a non-empty payload, the first with task id \<open>a\<close>, the second with task
  id \<open>b\<close> (\<open>payload_taskid\<close> of the payloads). When \<open>a\<close> is present, not empty and
  different from \<open>b\<close>, the second invocation calls \<open>clearTaskCache\<close> exactly once, with
  \<open>a\<close>, and a rejection of that call is logged as one warning right after it; when
  \<open>a\<close> is absent, the empty string, or equal to \<open>b\<close>, it neither calls nor warns. In
  every case it adopts \<open>b\<close> as the previous task id. What \<open>clearTaskCache\<close> answers
  changes nothing but the presence of the warning in the trace: replacing it by any
  other answer \<open>c\<close> gives the same state once the warnings are erased. With no
  previous task id the first invocation clears nothing and warns of nothing.
\<close>

theorem task_switch_eviction:
  assumes g: "gate env1 s" "gate env2 s"
    and first: "getAgentTaskDetails env1 (roleid env1) = Inr r1" "status r1"
      "main_payload r1 \<noteq> EmptyString"
    and second: "getAgentTaskDetails env2 (roleid env2) = Inr r2" "status r2"
      "main_payload r2 \<noteq> EmptyString"
  shows "clear_calls (trace (fetchData env2 (fetchData env1 s))) =
           clear_calls (trace (fetchData env1 s))
           @ (case payload_taskid (main_payload r1) of
                None \<Rightarrow> []
              | Some a \<Rightarrow>
                  if a \<noteq> [] \<and> Some a \<noteq> payload_taskid (main_payload r2) then [a] else [])
       \<and> cache_clearing (trace (fetchData env2 (fetchData env1 s))) =
           cache_clearing (trace (fetchData env1 s))
           @ (case payload_taskid (main_payload r1) of
                None \<Rightarrow> []
              | Some a \<Rightarrow>
                  if a \<noteq> [] \<and> Some a \<noteq> payload_taskid (main_payload r2)
                  then CallClearTaskCache a
                       # (case clearTaskCache env2 a of
                            Inl e \<Rightarrow> [Console Warn ClearCacheFailed]
                          | Inr ok \<Rightarrow> [])
                  else [])
       \<and> prevTaskIdRef (fetchData env2 (fetchData env1 s)) = payload_taskid (main_payload r2)
       \<and> erase_warn (fetchData (env2\<lparr>clearTaskCache := c\<rparr>) (fetchData env1 s)) =
           erase_warn (fetchData env2 (fetchData env1 s))
       \<and> (prevTaskIdRef s = None \<longrightarrow>
           clear_calls (trace (fetchData env1 s)) = clear_calls (trace s)
           \<and> cache_clearing (trace (fetchData env1 s)) = cache_clearing (trace s))"
proof -
  have p1: "prevTaskIdRef (fetchData env1 s) = payload_taskid (main_payload r1)"
    using fetchData_clear_calls(2)[OF g(1) first] by simp
  have g2: "gate env2 (fetchData env1 s)" using g(2) by simp
  have c2: "clear_calls (trace (fetchData env2 (fetchData env1 s))) =
           clear_calls (trace (fetchData env1 s))
           @ (case payload_taskid (main_payload r1) of
                None \<Rightarrow> []
              | Some a \<Rightarrow>
                  if a \<noteq> [] \<and> Some a \<noteq> payload_taskid (main_payload r2) then [a] else [])"
    using fetchData_clear_calls(1)[OF g2 second] by (simp add: p1 switch_clears_def)
  have e2: "cache_clearing (trace (fetchData env2 (fetchData env1 s))) =
           cache_clearing (trace (fetchData env1 s))
           @ (case payload_taskid (main_payload r1) of
                None \<Rightarrow> []
              | Some a \<Rightarrow>
                  if a \<noteq> [] \<and> Some a \<noteq> payload_taskid (main_payload r2)
                  then CallClearTaskCache a
                       # (case clearTaskCache env2 a of
                            Inl e \<Rightarrow> [Console Warn ClearCacheFailed]
                          | Inr ok \<Rightarrow> [])
                  else [])"
    using fetchData_clearing[OF g2 second] by (simp add: p1 switch_events_def)
  have c1: "prevTaskIdRef s = None \<longrightarrow>
           clear_calls (trace (fetchData env1 s)) = clear_calls (trace s)
           \<and> cache_clearing (trace (fetchData env1 s)) = cache_clearing (trace s)"
    using fetchData_clear_calls(1)[OF g(1) first] fetchData_clearing[OF g(1) first]
    by (simp add: switch_clears_def switch_events_def)
  have p2: "prevTaskIdRef (fetchData env2 (fetchData env1 s)) = payload_taskid (main_payload r2)"
    using fetchData_clear_calls(2)[OF g2 second] .
  have er: "erase_warn (fetchData (env2\<lparr>clearTaskCache := c\<rparr>) (fetchData env1 s)) =
           erase_warn (fetchData env2 (fetchData env1 s))"
    by (rule clear_outcome_only_warns)
  show ?thesis
    using c2 e2 p2 er c1 by blast
qed

theorem task_switch_eviction_witness:
  "gate example_env (initial_state False) \<and> gate next_task_env (initial_state False)
   \<and> prevTaskIdRef (initial_state False) = None
   \<and> clear_calls (trace (fetchData example_env (initial_state False))) = []
   \<and> cache_clearing (trace (fetchData example_env (initial_state False))) = []
   \<and> clear_calls (trace (fetchData next_task_env (fetchData example_env (initial_state False)))) = [''T1'']
   \<and> cache_clearing (trace (fetchData next_task_env (fetchData example_env (initial_state False))))
       = [CallClearTaskCache ''T1'', Console Warn ClearCacheFailed]
   \<and> prevTaskIdRef (fetchData next_task_env (fetchData example_env (initial_state False))) = Some ''T2''
   \<and> clearTaskCache next_task_env ''T1'' = Inl (Exn ''blocked'')
   \<and> erase_warn (fetchData (next_task_env\<lparr>clearTaskCache := (\<lambda>t. Inr ())\<rparr>)
                    (fetchData example_env (initial_state False))) =
       erase_warn (fetchData next_task_env (fetchData example_env (initial_state False)))"
proof -
  have g2: "gate next_task_env (initial_state False)"
    by (simp add: gate_def next_task_env_def example_env_def initial_state_def)
  have r1: "getAgentTaskDetails example_env (roleid example_env) =
      Inr \<lparr>status = True, main_payload = TaskObj example_task, statusCode = None\<rparr>"
    by (simp add: example_env_def)
  have r2: "getAgentTaskDetails next_task_env (roleid next_task_env) =
      Inr \<lparr>status = True, main_payload = TaskObj (example_task\<lparr>taskid := Some ''T2''\<rparr>),
           statusCode = None\<rparr>"
    by (simp add: next_task_env_def)
  have init: "prevTaskIdRef (initial_state False) = None" "trace (initial_state False) = []"
    by (simp_all add: initial_state_def)
  have cl: "clearTaskCache next_task_env ''T1'' = Inl (Exn ''blocked'')"
    by (simp add: next_task_env_def)
  have ids: "payload_taskid (TaskObj example_task) = Some ''T1''"
    "payload_taskid (TaskObj (example_task\<lparr>taskid := Some ''T2''\<rparr>)) = Some ''T2''"
    by (simp_all add: example_task_def)
  note t = task_switch_eviction[OF example_gate g2 r1 _ _ r2, where c = "\<lambda>t. Inr ()"]
  show ?thesis
    using example_gate g2 cl t by (simp add: init ids example_refs(4))
qed

text \<open>
  The claim as worded fails for a task whose id is the empty string: its documents
  are saved under that id, and the switch to the next task clears nothing.
\<close>

theorem blank_task_id_never_cleared:
  "payload_taskid (TaskObj (example_task\<lparr>taskid := Some ''''\<rparr>)) = Some ''''
   \<and> saved_docs (trace (fetchData blank_id_env (initial_state False))) = [(Some '''', 0, Blob 4, Json 5)]
   \<and> prevTaskIdRef (fetchData blank_id_env (initial_state False)) = Some ''''
   \<and> clear_calls (trace (fetchData next_task_env (fetchData blank_id_env (initial_state False)))) = []
   \<and> prevTaskIdRef (fetchData next_task_env (fetchData blank_id_env (initial_state False))) = Some ''T2''"
  by (simp add: run_defs blank_id_env_def next_task_env_def)

subsection \<open>Runs of the pipeline on the concrete task\<close>

text \<open>
  Claim C3 does not hold of the code. The cache hit starts the background job at
  index \<open>cachedDocs.length\<close> (line 207), which is the first missing index only when
  the cached indices are \<open>0, ..., k - 1\<close>. A run in which document 1 fails to
  download saves documents 0 and 2 (first conjunct). On the next run for the same
  task the cache answers with these two, the job starts at index 2, and document 2
  is appended a second time: \<open>allDocuments\<close> settles with the indices \<open>0, 2, 2\<close>, and
  document 1 is never fetched. A refresh during hydration duplicates as well: with
  the first job about to fetch index 2, a refresh that finds documents 0 and 1 in
  the cache starts a second job at index 2, and both append document 2, which gives
  four entries for three references (last conjunct).
\<close>

theorem duplicate_document_index:
  "map (\<lambda>(t, i, b, j). i) (saved_docs (trace (settle offline_env (initial_state False)))) = [0, 2]
   \<and> getAllDocuments gap_env (Some ''T1'') = Inr [cached_doc 0, cached_doc 2]
   \<and> map index [cached_doc 0, cached_doc 2] = [0, 2]
   \<and> length (imageurl example_zoning) = 3
   \<and> document_indices (settle gap_env (initial_state False)) = [0, 2, 2]
   \<and> \<not> distinct (document_indices (settle gap_env (initial_state False)))
   \<and> document_indices
       (fetchRemainingDocuments cached_env (Some ''T1'') example_zoning 2
          (fetchRemainingDocuments cached_env (Some ''T1'') example_zoning 2
             (refreshData cached_env
                (fetch_one example_env (Some ''T1'') example_zoning 1
                   (fetchData example_env (initial_state False))))))
       = [0, 1, 2, 2]"
  by (simp add: run_defs gap_env_def offline_env_def cached_env_def refreshData_def)

text \<open>
  Claim C7 does not hold of the code. On the cache miss the one object URL is stored
  both in \<open>currentDocument\<close> and in \<open>allDocuments[0]\<close>, and the cleanup revokes each
  place: a task with a single document has handle 0 created once and revoked twice
  at unmount. With three documents, every merge of a background document replaces
  \<open>data\<close>, which runs the cleanup of the previous value: handle 0 is revoked when
  document 1 arrives, although the new value still holds it, and six times in all
  by the time the provider unmounts. And when \<open>json()\<close> throws on the cache miss, the
  object URL created the line before (line 217) is stored nowhere and never revoked.
\<close>

theorem handle_released_twice_or_never:
  "created (trace (unmount (settle single_doc_env (initial_state False)))) = [0]
   \<and> revoked (trace (unmount (settle single_doc_env (initial_state False)))) = [0, 0]
   \<and> created (trace (settle example_env (initial_state False))) = [0, 1, 2]
   \<and> revoked (trace (settle example_env (initial_state False))) = [0, 0, 0, 1, 0]
   \<and> map imageUrl
         (case data (settle example_env (initial_state False)) of
            None \<Rightarrow> []
          | Some d \<Rightarrow>
              (case zoningdocuments d of
                 None \<Rightarrow> []
               | Some z \<Rightarrow> (case allDocuments z of None \<Rightarrow> [] | Some ds \<Rightarrow> ds)))
       = [BlobUrl 0, BlobUrl 1, BlobUrl 2]
   \<and> revoked (trace (unmount (settle example_env (initial_state False))))
       = [0, 0, 0, 1, 0, 0, 1, 2, 0]
   \<and> created (trace (unmount (settle broken_json_env (initial_state False)))) = [0]
   \<and> revoked (trace (unmount (settle broken_json_env (initial_state False)))) = []"
  by (simp add: run_defs single_doc_env_def single_zoning_def broken_json_env_def)

text \<open>
  A failure that \<open>agentKeyedOn\<close> reports in its response is logged and changes
  nothing else.
\<close>

lemma keyed_on_reported_failure:
  assumes "t \<noteq> []" "agentKeyedOn env t (roleid env) = Inr r" "\<not> keyed_status r"
  shows "keyed_on env (Some t) s =
     s\<lparr>trace := trace s @ [CallAgentKeyedOn t (roleid env), Console Error KeyedOnFailed]\<rparr>"
  using assms by (simp add: keyed_on_def Let_def emit_def)

text \<open>
  Claim C9 does not hold of the code when the acknowledgment fails by rejecting.
  \<open>agentKeyedOn\<close> is awaited inside the outer \<open>try\<close> (line 259), so its rejection
  reaches the outer \<open>catch\<close>, which calls \<open>setData(null)\<close>: the payload published two
  lines before is replaced by \<open>null\<close> and the retry timer is armed. (The call does come
  after the hydration, and a failure reported in the response is only logged: last
  conjunct.)
\<close>

theorem keyed_on_rejection_nulls_task:
  "agentKeyedOn keyed_reject_env ''T1'' (Some ''1'') = Inl (Exn ''timeout'')
   \<and> published (trace (fetchData keyed_reject_env (initial_state False))) =
        [Some (enriched_miss example_task example_zoning (BlobUrl 0) (Json 5)), None]
   \<and> data (fetchData keyed_reject_env (initial_state False)) = None
   \<and> retry_timer_armed (fetchData keyed_reject_env (initial_state False))
   \<and> data (fetchData keyed_refused_env (initial_state False)) =
        Some (enriched_miss example_task example_zoning (BlobUrl 0) (Json 5))"
  by (simp add: run_defs keyed_reject_env_def keyed_refused_env_def)

end
